theory Spec2Isabelle
  imports Main
begin

section \<open>Data model\<close>

text \<open>
  The state synchronisation engine of the shop application lives in the React component
  \<^verbatim>\<open>App\<close> of \<^verbatim>\<open>src/App.tsx\<close>. Its entity types are imported from
  \<^verbatim>\<open>./types\<close>; the records below carry the fields that \<^verbatim>\<open>App.tsx\<close> reads or
  writes, and every further field of an order or of a part lives in the record's extension
  (\<open>'o repair_order_scheme\<close>, \<open>'p part_scheme\<close>), which the functions below never inspect.
\<close>

subsection \<open>JavaScript numbers\<close>

text \<open>
  A quantity is a JavaScript \<^verbatim>\<open>number\<close>, a double. The data model makes quantities
  integers, so \<open>number\<close> has the doubles that \<^verbatim>\<open>+\<close> reaches from integers: the integer
  ones (\<open>Finite n\<close>; a double holds \<open>n\<close> when \<open>round53 n = n\<close> and \<open>\<bar>n\<bar> < 2 ^ 1024\<close>), the
  two infinities and \<^verbatim>\<open>NaN\<close>. The two zeros are one value: \<^verbatim>\<open>+\<close>, \<^verbatim>\<open><=\<close>, \<^verbatim>\<open>===\<close>
  and JSON do not tell them apart.
\<close>

datatype number = Finite int | PosInfinity | NegInfinity | NaN

text \<open>The number of binary digits of a natural number.\<close>

fun bitlen :: "nat \<Rightarrow> nat" where
  "bitlen n = (if n = 0 then 0 else Suc (bitlen (n div 2)))"

declare bitlen.simps [simp del]

text \<open>
  Rounding an integer to the nearest integer with a significand of 53 bits, ties to the
  even significand, as every operation on doubles rounds its exact result. Up to
  \<open>9007199254740992 = 2 ^ 53\<close> in magnitude nothing is rounded.
\<close>

definition round53 :: "int \<Rightarrow> int" where
  "round53 x =
     (if \<bar>x\<bar> \<le> 9007199254740992 then x
      else
        (let m = nat \<bar>x\<bar>; k = bitlen m - 53; q = m div 2 ^ k; r = m mod 2 ^ k;
             h = 2 ^ (k - 1);
             q' = (if h < r \<or> (r = h \<and> odd q) then q + 1 else q)
         in sgn x * int (q' * 2 ^ k)))"

text \<open>The double nearest to an integer: a rounded magnitude of \<open>2 ^ 1024\<close> or more
  overflows to an infinity.\<close>

definition to_double :: "int \<Rightarrow> number" where
  "to_double x =
     (let y = round53 x
      in if 2 ^ 1024 \<le> y then PosInfinity
         else if y \<le> - (2 ^ 1024) then NegInfinity
         else Finite y)"

text \<open>\<^verbatim>\<open>a + b\<close> and \<^verbatim>\<open>a <= b\<close> on numbers are written \<open>a + b\<close> and \<open>a \<le> b\<close>.\<close>

instantiation number :: "{plus, ord}"
begin

fun plus_number :: "number \<Rightarrow> number \<Rightarrow> number" where
  "plus_number NaN _ = NaN"
| "plus_number _ NaN = NaN"
| "plus_number PosInfinity NegInfinity = NaN"
| "plus_number NegInfinity PosInfinity = NaN"
| "plus_number PosInfinity _ = PosInfinity"
| "plus_number _ PosInfinity = PosInfinity"
| "plus_number NegInfinity _ = NegInfinity"
| "plus_number _ NegInfinity = NegInfinity"
| "plus_number (Finite a) (Finite b) = to_double (a + b)"

fun less_eq_number :: "number \<Rightarrow> number \<Rightarrow> bool" where
  "less_eq_number NaN _ = False"
| "less_eq_number _ NaN = False"
| "less_eq_number NegInfinity _ = True"
| "less_eq_number _ PosInfinity = True"
| "less_eq_number PosInfinity _ = False"
| "less_eq_number _ NegInfinity = False"
| "less_eq_number (Finite a) (Finite b) = (a \<le> b)"

definition less_number :: "number \<Rightarrow> number \<Rightarrow> bool" where
  "less_number x y = (x \<le> y \<and> \<not> y \<le> x)"

instance ..

end

subsection \<open>Entities and state\<close>

text \<open>Modelled from the spec: the members of the enum \<^verbatim>\<open>ROStatus\<close> of \<^verbatim>\<open>./types\<close>
  (section 4.1 of the specification; \<^verbatim>\<open>App.tsx\<close> names all of them but \<^verbatim>\<open>NEW\<close>).\<close>

datatype ROStatus =
  NEW | AUTHORIZED | PARTS_PENDING | READY_FOR_TECH | ACTIVE | COMPLETED | PENDING_INVOICE

text \<open>Modelled from the spec: the interface \<^verbatim>\<open>RepairOrder\<close> of \<^verbatim>\<open>./types\<close>. The field
  \<^verbatim>\<open>id\<close> is called \<open>ro_id\<close> here; an optional field is an \<open>option\<close>.\<close>

record repair_order =
  ro_id :: string
  status :: ROStatus
  technicianId :: "string option"

text \<open>Modelled from the spec: the interface \<^verbatim>\<open>Part\<close> of \<^verbatim>\<open>./types\<close>
  (section 3 of the specification: \<open>quantityOnHand\<close> and \<open>reorderPoint\<close> are integers; the
  code adds and compares them as numbers).\<close>

record part =
  partNumber :: string
  description :: string
  quantityOnHand :: number
  reorderPoint :: number

text \<open>Modelled from the spec: the interface \<^verbatim>\<open>InventoryAlert\<close> of \<^verbatim>\<open>./types\<close>.
  \<open>alert_fields\<close> is \<^verbatim>\<open>Omit<InventoryAlert, 'id' | 'timestamp'>\<close>, the argument type of
  \<^verbatim>\<open>addInventoryAlert\<close>; the alert's \<^verbatim>\<open>partNumber\<close> and \<^verbatim>\<open>id\<close> are called
  \<open>a_partNumber\<close> and \<open>alert_id\<close>.\<close>

record alert_fields =
  a_partNumber :: string
  message :: string
  roId :: string
  reason :: string

record inventory_alert = alert_fields +
  alert_id :: string
  timestamp :: int

text \<open>
  The component's state: one field for each \<^verbatim>\<open>useState\<close> cell that the engine touches
  (\<^verbatim>\<open>role\<close>, \<^verbatim>\<open>config\<close>, \<^verbatim>\<open>currentTechnicianId\<close> and \<^verbatim>\<open>isCommsLinkOpen\<close> belong
  to the navigation chrome and are left out). The initial values are the arguments of the
  \<^verbatim>\<open>useState\<close> calls.
\<close>

record ('o, 'p) app_state =
  repairOrders :: "'o repair_order_scheme list"
  masterInventory :: "'p part_scheme list"
  inventoryAlerts :: "inventory_alert list"
  isDemoMode :: bool
  isLoading :: bool
  error :: "string option"

definition initial_state :: "('o, 'p) app_state" where
  "initial_state =
     \<lparr>repairOrders = [], masterInventory = [], inventoryAlerts = [],
      isDemoMode = False, isLoading = True, error = None\<rparr>"

section \<open>The remote store\<close>

text \<open>
  Rows on the wire are JSON values. A call to the Supabase client is one of the three
  request shapes the component builds:
  \<^verbatim>\<open>from(t).select('*')\<close>, \<^verbatim>\<open>from(t).insert(rows)\<close> and
  \<^verbatim>\<open>from(t).update(payload).eq(column, value)\<close>.
\<close>

datatype json =
  JNull | JBool bool | JNum number | JStr string | JArr "json list"
| JObj "(string \<times> json) list"

datatype remote_call =
  Select string
| Insert string "json list"
| Update string json string string

text \<open>An error object, as far as the component looks at it: its \<^verbatim>\<open>message\<close>, which may
  be missing.\<close>

record remote_error =
  err_message :: "string option"

text \<open>What awaiting a request yields: the object \<^verbatim>\<open>{ data, error }\<close>, or a rejected
  promise, which \<^verbatim>\<open>await\<close> throws.\<close>

datatype response =
  Response json "remote_error option"
| Throws remote_error

record client =
  request :: "remote_call \<Rightarrow> response"

text \<open>
  The imports of the component that are not under \<^verbatim>\<open>src/\<close>, taken as parameters:
  \<^verbatim>\<open>supabase\<close> (the client or \<^verbatim>\<open>null\<close>) and \<^verbatim>\<open>isSupabaseConfigured\<close> of
  \<^verbatim>\<open>./supabaseClient\<close>, and the field-name translations \<^verbatim>\<open>toSnake\<close> and
  \<^verbatim>\<open>toCamel\<close> of \<^verbatim>\<open>./utils\<close> (\<^verbatim>\<open>toCamel\<close> once at each of the two types it is
  used at).
\<close>

record ('o, 'p) modules =
  supabase :: "client option"
  isSupabaseConfigured :: bool
  toSnake :: "'o repair_order_scheme \<Rightarrow> json"
  toCamel_orders :: "json \<Rightarrow> 'o repair_order_scheme list"
  toCamel_parts :: "json \<Rightarrow> 'p part_scheme list"

text \<open>How an \<^verbatim>\<open>async\<close> function ends: its promise is fulfilled, or rejected with the
  error that an awaited request threw.\<close>

datatype promise = Fulfilled | Rejected remote_error

definition await :: "response \<Rightarrow> promise" where
  "await r = (case r of Response _ _ \<Rightarrow> Fulfilled | Throws e \<Rightarrow> Rejected e)"

text \<open>JavaScript truthiness, for the two uses of \<^verbatim>\<open>||\<close>.\<close>

fun truthy :: "json \<Rightarrow> bool" where
  "truthy JNull = False"
| "truthy (JBool b) = b"
| "truthy (JNum n) = (n \<noteq> Finite 0 \<and> n \<noteq> NaN)"
| "truthy (JStr s) = (s \<noteq> [])"
| "truthy (JArr _) = True"
| "truthy (JObj _) = True"

section \<open>Rendering a clock reading in a template literal\<close>

text \<open>A reading of \<^verbatim>\<open>Date.now()\<close> is an integer far inside the range that doubles hold
  exactly; \<^verbatim>\<open>`alert-${Date.now()}`\<close> renders it in decimal, with a minus sign when it is
  negative.\<close>

definition digit_char :: "nat \<Rightarrow> char" where
  "digit_char d = ''0123456789'' ! d"

fun show_nat :: "nat \<Rightarrow> string" where
  "show_nat n = (if n < 10 then [digit_char n] else show_nat (n div 10) @ [digit_char (n mod 10)])"

declare show_nat.simps [simp del]

definition show_int :: "int \<Rightarrow> string" where
  "show_int i = (if i < 0 then CHR ''-'' # show_nat (nat (- i)) else show_nat (nat i))"

section \<open>The mutations of \<^verbatim>\<open>App.tsx\<close>\<close>

text \<open>
  Every handler is a closure of one render: it reads the state cells of that render
  (\<open>r\<close> below: \<^verbatim>\<open>masterInventory\<close>, \<^verbatim>\<open>isDemoMode\<close>) and writes through the setters'
  functional form \<^verbatim>\<open>set(prev => ...)\<close>, which is applied to the current state (\<open>s\<close>
  below). A handler called from the render of the current state has \<open>r = s\<close>.
  A handler returns the new state, the requests it issued to the remote store, in order,
  and how its promise ends. The parameters \<^verbatim>\<open>partNumber\<close>, \<^verbatim>\<open>reason\<close> and
  \<^verbatim>\<open>roId\<close> of \<^verbatim>\<open>updateInventory\<close> are called \<open>pn\<close>, \<open>rsn\<close> and \<open>ro\<close>, the
  names being taken by the record fields.
\<close>

definition updateRO ::
  "('o, 'p) modules \<Rightarrow> ('o, 'p) app_state \<Rightarrow> 'o repair_order_scheme \<Rightarrow> ('o, 'p) app_state
     \<Rightarrow> ('o, 'p) app_state \<times> remote_call list \<times> promise" where
  "updateRO im r updatedRO s =
     (let s' = s\<lparr>repairOrders :=
                 map (\<lambda>ro. if ro_id ro = ro_id updatedRO then updatedRO else ro) (repairOrders s)\<rparr>
      in if \<not> isDemoMode r then
           (case supabase im of
              None \<Rightarrow> (s', [], Fulfilled)
            | Some c \<Rightarrow>
                (let call = Update ''repair_orders'' (toSnake im updatedRO) ''id'' (ro_id updatedRO)
                 in (s', [call], await (request c call))))
         else (s', [], Fulfilled))"

text \<open>\<^verbatim>\<open>Date.now()\<close> is read twice by \<^verbatim>\<open>addInventoryAlert\<close>, first for the id, then
  for the timestamp: \<open>clock\<close> is the pair of the two readings.\<close>

type_synonym clock = "int \<times> int"

definition addInventoryAlert ::
  "clock \<Rightarrow> alert_fields \<Rightarrow> ('o, 'p) app_state \<Rightarrow> ('o, 'p) app_state" where
  "addInventoryAlert now alert s =
     (let newAlert =
            \<lparr>a_partNumber = a_partNumber alert, message = message alert, roId = roId alert,
             reason = reason alert,
             alert_id = ''alert-'' @ show_int (fst now), timestamp = snd now\<rparr>
      in s\<lparr>inventoryAlerts := newAlert # inventoryAlerts s\<rparr>)"

definition updateInventory ::
  "('o, 'p) modules \<Rightarrow> ('o, 'p) app_state \<Rightarrow> clock \<Rightarrow> string \<Rightarrow> number \<Rightarrow> string \<Rightarrow> string
     \<Rightarrow> ('o, 'p) app_state \<Rightarrow> ('o, 'p) app_state \<times> remote_call list \<times> promise" where
  "updateInventory im r now pn quantityChange rsn ro s =
     (case find (\<lambda>p. partNumber p = pn) (masterInventory r) of
        None \<Rightarrow> (s, [], Fulfilled)
      | Some partToUpdate \<Rightarrow>
          (let newQuantity = quantityOnHand partToUpdate + quantityChange;
               s1 = s\<lparr>masterInventory :=
                       map (\<lambda>part. if partNumber part = pn
                                    then part\<lparr>quantityOnHand := newQuantity\<rparr> else part)
                         (masterInventory s)\<rparr>;
               s2 = (if newQuantity \<le> reorderPoint partToUpdate
                     then addInventoryAlert now
                            \<lparr>a_partNumber = pn,
                             message = ''Low stock: '' @ description partToUpdate,
                             roId = ro, reason = rsn\<rparr> s1
                     else s1)
           in if \<not> isDemoMode r then
                (case supabase im of
                   None \<Rightarrow> (s2, [], Fulfilled)
                 | Some c \<Rightarrow>
                     (let call = Update ''master_inventory''
                                   (JObj [(''quantity_on_hand'', JNum newQuantity)])
                                   ''part_number'' pn
                      in (s2, [call], await (request c call))))
              else (s2, [], Fulfilled)))"

definition addRO ::
  "('o, 'p) modules \<Rightarrow> ('o, 'p) app_state \<Rightarrow> 'o repair_order_scheme \<Rightarrow> ('o, 'p) app_state
     \<Rightarrow> ('o, 'p) app_state \<times> remote_call list \<times> promise" where
  "addRO im r newRO s =
     (let s' = s\<lparr>repairOrders := repairOrders s @ [newRO]\<rparr>
      in if \<not> isDemoMode r then
           (case supabase im of
              None \<Rightarrow> (s', [], Fulfilled)
            | Some c \<Rightarrow>
                (let call = Insert ''repair_orders'' [toSnake im newRO]
                 in (s', [call], await (request c call))))
         else (s', [], Fulfilled))"

section \<open>Bootstrap\<close>

text \<open>The \<^verbatim>\<open>catch\<close> block of \<^verbatim>\<open>fetchInitialData\<close> followed by its \<^verbatim>\<open>finally\<close>:
  \<^verbatim>\<open>setError(error.message || "Uplink to Command Database failed.")\<close>, then
  \<^verbatim>\<open>setIsLoading(false)\<close>. A missing message and the empty string are falsy.\<close>

definition catch_message :: "remote_error \<Rightarrow> string" where
  "catch_message e =
     (case err_message e of
        None \<Rightarrow> ''Uplink to Command Database failed.''
      | Some m \<Rightarrow> if m \<noteq> [] then m else ''Uplink to Command Database failed.'')"

definition catch_finally :: "remote_error \<Rightarrow> ('o, 'p) app_state \<Rightarrow> ('o, 'p) app_state" where
  "catch_finally e s = s\<lparr>error := Some (catch_message e), isLoading := False\<rparr>"

text \<open>\<^verbatim>\<open>fetchInitialData\<close> returns the new state and the requests it issued, in order.\<close>

definition fetchInitialData ::
  "('o, 'p) modules \<Rightarrow> ('o, 'p) app_state \<Rightarrow> ('o, 'p) app_state \<times> remote_call list" where
  "fetchInitialData im s =
     (let s0 = s\<lparr>isLoading := True, error := None\<rparr>;
          unconfigured = (s0\<lparr>error := Some ''SUPABASE_UNCONFIGURED'', isLoading := False\<rparr>, [])
      in if \<not> isSupabaseConfigured im then unconfigured
         else
           (case supabase im of
              None \<Rightarrow> unconfigured
            | Some c \<Rightarrow>
                (let q1 = Select ''repair_orders''; q2 = Select ''master_inventory''
                 in case request c q1 of
                      Throws e \<Rightarrow> (catch_finally e s0, [q1])
                    | Response roData roError \<Rightarrow>
                        (case roError of
                           Some e \<Rightarrow> (catch_finally e s0, [q1])
                         | None \<Rightarrow>
                             (let s1 = s0\<lparr>repairOrders :=
                                            toCamel_orders im
                                              (if truthy roData then roData else JArr [])\<rparr>
                              in case request c q2 of
                                   Throws e \<Rightarrow> (catch_finally e s1, [q1, q2])
                                 | Response invData invError \<Rightarrow>
                                     (case invError of
                                        Some e \<Rightarrow> (catch_finally e s1, [q1, q2])
                                      | None \<Rightarrow>
                                          (s1\<lparr>masterInventory :=
                                                toCamel_parts im
                                                  (if truthy invData then invData else JArr []),
                                              isLoading := False\<rparr>,
                                           [q1, q2])))))))"

text \<open>The effect that depends on \<^verbatim>\<open>isDemoMode\<close>; it runs when the component mounts and
  whenever \<^verbatim>\<open>isDemoMode\<close> changes.\<close>

definition demoMode_effect ::
  "('o, 'p) modules \<Rightarrow> ('o, 'p) app_state \<Rightarrow> ('o, 'p) app_state \<times> remote_call list" where
  "demoMode_effect im s =
     (if \<not> isDemoMode s then fetchInitialData im s
      else (s\<lparr>isLoading := False, error := None\<rparr>, []))"

definition startup :: "('o, 'p) modules \<Rightarrow> ('o, 'p) app_state \<times> remote_call list" where
  "startup im = demoMode_effect im initial_state"

text \<open>Which of its three top-level screens the component renders, and the two
  buttons of the screen for the unconfigured store: \<^verbatim>\<open>Retry Handshake\<close> reloads the page,
  \<^verbatim>\<open>Launch Simulation Mode\<close> calls \<^verbatim>\<open>setIsDemoMode(true)\<close>, after which the effect
  runs if the cell changed.\<close>

datatype screen = LoadingScreen | UnconfiguredScreen | MainScreen

definition render :: "('o, 'p) app_state \<Rightarrow> screen" where
  "render s =
     (if isLoading s then LoadingScreen
      else if error s = Some ''SUPABASE_UNCONFIGURED'' then UnconfiguredScreen
      else MainScreen)"

datatype button = RetryHandshake | LaunchSimulationMode

fun buttons :: "screen \<Rightarrow> button list" where
  "buttons UnconfiguredScreen = [RetryHandshake, LaunchSimulationMode]"
| "buttons LoadingScreen = []"
| "buttons MainScreen = []"

fun onClick ::
  "button \<Rightarrow> ('o, 'p) modules \<Rightarrow> ('o, 'p) app_state \<Rightarrow> ('o, 'p) app_state \<times> remote_call list" where
  "onClick RetryHandshake im s = startup im"
| "onClick LaunchSimulationMode im s =
     (if isDemoMode s then (s, []) else demoMode_effect im (s\<lparr>isDemoMode := True\<rparr>))"

text \<open>The error a response makes \<^verbatim>\<open>fetchInitialData\<close> throw, if any: the rejection of the
  awaited promise, or the \<^verbatim>\<open>error\<close> of the returned object.\<close>

fun thrown :: "response \<Rightarrow> remote_error option" where
  "thrown (Throws e) = Some e"
| "thrown (Response _ err) = err"

section \<open>Concrete scenarios\<close>

text \<open>The part of the specification's scenarios 1 and 2, orders, module environments
  for the two modes, and a second inventory: a part two above its reorder point, and a part
  whose quantity and reorder point are \<open>2 ^ 53\<close>.\<close>

definition eng001 :: part where
  "eng001 = \<lparr>partNumber = ''ENG-001'', description = ''Impeller'',
             quantityOnHand = Finite 5, reorderPoint = Finite 5\<rparr>"

definition prop002 :: part where
  "prop002 = \<lparr>partNumber = ''PROP-002'', description = ''Propeller'',
              quantityOnHand = Finite 10, reorderPoint = Finite 2\<rparr>"

definition gasket :: part where
  "gasket = \<lparr>partNumber = ''GSK-004'', description = ''Gasket'',
             quantityOnHand = Finite 7, reorderPoint = Finite 5\<rparr>"

definition bulk :: part where
  "bulk = \<lparr>partNumber = ''BULK-003'', description = ''Rivets'',
           quantityOnHand = Finite 9007199254740992,
           reorderPoint = Finite 9007199254740992\<rparr>"

definition ro1 :: repair_order where
  "ro1 = \<lparr>ro_id = ''RO-1'', status = NEW, technicianId = Some ''tech-1''\<rparr>"

definition ro1_authorized :: repair_order where
  "ro1_authorized = \<lparr>ro_id = ''RO-1'', status = AUTHORIZED, technicianId = None\<rparr>"

definition ro2 :: repair_order where
  "ro2 = \<lparr>ro_id = ''RO-2'', status = ACTIVE, technicianId = Some ''tech-2''\<rparr>"

definition shop :: "(unit, unit) app_state" where
  "shop = \<lparr>repairOrders = [ro1, ro2], masterInventory = [eng001, prop002],
           inventoryAlerts = [], isDemoMode = False, isLoading = False, error = None\<rparr>"

definition depot :: "(unit, unit) app_state" where
  "depot = \<lparr>repairOrders = [], masterInventory = [gasket, bulk],
            inventoryAlerts = [], isDemoMode = True, isLoading = False, error = None\<rparr>"

definition snake_id :: "repair_order \<Rightarrow> json" where
  "snake_id ro =
     JObj [(''id'', JStr (ro_id ro)),
           (''technician_id'', case technicianId ro of None \<Rightarrow> JNull | Some t \<Rightarrow> JStr t)]"

definition modules_of :: "client option \<Rightarrow> bool \<Rightarrow> (unit, unit) modules" where
  "modules_of c configured =
     \<lparr>supabase = c, isSupabaseConfigured = configured, toSnake = snake_id,
      toCamel_orders = (\<lambda>_. []), toCamel_parts = (\<lambda>_. [])\<rparr>"

definition failing_client :: "string option \<Rightarrow> client" where
  "failing_client m = \<lparr>request = (\<lambda>_. Response JNull (Some \<lparr>err_message = m\<rparr>))\<rparr>"

definition rejecting_client :: client where
  "rejecting_client = \<lparr>request = (\<lambda>_. Throws \<lparr>err_message = Some ''Failed to fetch''\<rparr>)\<rparr>"

definition ok_client :: client where
  "ok_client = \<lparr>request = (\<lambda>_. Response (JArr []) None)\<rparr>"

section \<open>Auxiliary facts\<close>

lemma to_double_exact: "\<bar>x\<bar> \<le> 2 ^ 53 \<Longrightarrow> to_double x = Finite x"
proof -
  assume a: "\<bar>x\<bar> \<le> 2 ^ 53"
  then have r: "round53 x = x"
    by (simp add: round53_def)
  have "(2::int) ^ 53 < 2 ^ 1024"
    by (rule power_strict_increasing) simp_all
  with a have "\<not> 2 ^ 1024 \<le> x" and "\<not> x \<le> - (2 ^ 1024)"
    by linarith+
  then show ?thesis
    by (simp only: to_double_def r Let_def if_False)
qed

lemma plus_Finite_exact:
  "\<bar>a + b\<bar> \<le> 2 ^ 53 \<Longrightarrow> Finite a + Finite b = Finite (a + b)"
  by (simp only: plus_number.simps to_double_exact)

lemma bitlen_above_2_53: "bitlen 9007199254740993 = 54"
  by (simp add: bitlen.simps)

lemma round53_above_2_53: "round53 9007199254740993 = 9007199254740992"
  by (simp add: round53_def bitlen_above_2_53 Let_def)

lemma to_double_above_2_53: "to_double 9007199254740993 = Finite 9007199254740992"
  by (simp add: to_double_def round53_above_2_53 Let_def)

lemma plus_one_at_2_53:
  "Finite 9007199254740992 + Finite 1 = Finite 9007199254740992"
  by (simp add: to_double_above_2_53)

lemma find_map_same_key:
  assumes "\<And>x. P (f x) = P x"
  shows "find P (map f xs) = map_option f (find P xs)"
  using assms by (induction xs) auto

lemma inventoryAlerts_addInventoryAlert:
  "inventoryAlerts (addInventoryAlert now a s) =
     \<lparr>a_partNumber = a_partNumber a, message = message a, roId = roId a, reason = reason a,
      alert_id = ''alert-'' @ show_int (fst now), timestamp = snd now\<rparr> # inventoryAlerts s"
  by (simp add: addInventoryAlert_def)

lemma addInventoryAlert_frame:
  "repairOrders (addInventoryAlert now a s) = repairOrders s"
  "masterInventory (addInventoryAlert now a s) = masterInventory s"
  "isDemoMode (addInventoryAlert now a s) = isDemoMode s"
  "isLoading (addInventoryAlert now a s) = isLoading s"
  "error (addInventoryAlert now a s) = error s"
  by (simp_all add: addInventoryAlert_def)

lemma updateInventory_found:
  assumes "find (\<lambda>q. partNumber q = pn) (masterInventory r) = Some p"
  shows "fst (updateInventory im r now pn d rsn ro s) =
     (let s1 = s\<lparr>masterInventory :=
                  map (\<lambda>part. if partNumber part = pn
                               then part\<lparr>quantityOnHand := quantityOnHand p + d\<rparr> else part)
                    (masterInventory s)\<rparr>
      in if quantityOnHand p + d \<le> reorderPoint p
         then addInventoryAlert now
                \<lparr>a_partNumber = pn, message = ''Low stock: '' @ description p,
                 roId = ro, reason = rsn\<rparr> s1
         else s1)"
  using assms by (simp add: updateInventory_def Let_def split: option.splits)

lemma updateInventory_found_inventory:
  assumes "find (\<lambda>q. partNumber q = pn) (masterInventory r) = Some p"
  shows "masterInventory (fst (updateInventory im r now pn d rsn ro s)) =
           map (\<lambda>part. if partNumber part = pn
                        then part\<lparr>quantityOnHand := quantityOnHand p + d\<rparr> else part)
             (masterInventory s)"
  by (simp add: updateInventory_found [OF assms] addInventoryAlert_frame Let_def)

lemma updateInventory_found_alerts:
  assumes "find (\<lambda>q. partNumber q = pn) (masterInventory r) = Some p"
  shows "inventoryAlerts (fst (updateInventory im r now pn d rsn ro s)) =
           (if quantityOnHand p + d \<le> reorderPoint p
            then \<lparr>a_partNumber = pn, message = ''Low stock: '' @ description p, roId = ro,
                  reason = rsn, alert_id = ''alert-'' @ show_int (fst now),
                  timestamp = snd now\<rparr> # inventoryAlerts s
            else inventoryAlerts s)"
  by (simp add: updateInventory_found [OF assms] inventoryAlerts_addInventoryAlert Let_def)

lemma updateInventory_missing:
  assumes "find (\<lambda>q. partNumber q = pn) (masterInventory r) = None"
  shows "updateInventory im r now pn d rsn ro s = (s, [], Fulfilled)"
  using assms by (simp add: updateInventory_def)

lemma find_shop_eng001:
  "find (\<lambda>q. partNumber q = ''ENG-001'') (masterInventory shop) = Some eng001"
  by (simp add: shop_def eng001_def)

lemma find_shop_prop002:
  "find (\<lambda>q. partNumber q = ''PROP-002'') (masterInventory shop) = Some prop002"
  by (simp add: shop_def eng001_def prop002_def)

lemma find_shop_unknown:
  "find (\<lambda>q. partNumber q = ''UNKNOWN-PART'') (masterInventory shop) = None"
  by (simp add: shop_def eng001_def prop002_def)

lemma find_depot_gasket:
  "find (\<lambda>q. partNumber q = ''GSK-004'') (masterInventory depot) = Some gasket"
  by (simp add: depot_def gasket_def)

lemma find_depot_bulk:
  "find (\<lambda>q. partNumber q = ''BULK-003'') (masterInventory depot) = Some bulk"
  by (simp add: depot_def gasket_def bulk_def)

lemma updateInventory_found_state:
  assumes "find (\<lambda>q. partNumber q = pn) (masterInventory r) = Some p"
  shows "fst (updateInventory im r now pn d rsn ro s) =
     s\<lparr>masterInventory :=
         map (\<lambda>part. if partNumber part = pn
                      then part\<lparr>quantityOnHand := quantityOnHand p + d\<rparr> else part)
           (masterInventory s),
       inventoryAlerts :=
         (if quantityOnHand p + d \<le> reorderPoint p
          then \<lparr>a_partNumber = pn, message = ''Low stock: '' @ description p, roId = ro,
                reason = rsn, alert_id = ''alert-'' @ show_int (fst now),
                timestamp = snd now\<rparr> # inventoryAlerts s
          else inventoryAlerts s)\<rparr>"
  by (simp add: updateInventory_found [OF assms] addInventoryAlert_def Let_def)

section \<open>Inventory mutation\<close>

text \<open>
  C1 (as amended). When \<^verbatim>\<open>updateInventory\<close> is called for a part number that the
  inventory holds, from a render that shows the part as the inventory holds it, the part
  found under that number afterwards is the part found before with \<open>quantityOnHand\<close>
  replaced by the sum, as doubles, of the old quantity and the delta, and every entry
  stored under the number carries that quantity. The sum is the exact integer sum whenever
  that lies within \<open>2 ^ 53\<close> of zero, whatever its sign: nothing is clamped.
\<close>

theorem updateInventory_quantity:
  assumes "find (\<lambda>q. partNumber q = pn) (masterInventory s) = Some p"
      and "find (\<lambda>q. partNumber q = pn) (masterInventory r) = Some p"
  shows "find (\<lambda>q. partNumber q = pn)
           (masterInventory (fst (updateInventory im r now pn d rsn ro s)))
         = Some (p\<lparr>quantityOnHand := quantityOnHand p + d\<rparr>)
       \<and> (\<forall>q \<in> set (masterInventory (fst (updateInventory im r now pn d rsn ro s))).
            partNumber q = pn \<longrightarrow> quantityOnHand q = quantityOnHand p + d)
       \<and> (\<forall>a b. quantityOnHand p = Finite a \<and> d = Finite b \<and> \<bar>a + b\<bar> \<le> 2 ^ 53 \<longrightarrow>
            quantityOnHand p + d = Finite (a + b))"
proof -
  let ?upd = "\<lambda>part. if partNumber part = pn
                       then part\<lparr>quantityOnHand := quantityOnHand p + d\<rparr> else part"
  have inv: "masterInventory (fst (updateInventory im r now pn d rsn ro s))
               = map ?upd (masterInventory s)"
    by (rule updateInventory_found_inventory [OF assms(2)])
  have key: "partNumber p = pn"
    using assms(1) by (auto simp: find_Some_iff)
  have "find (\<lambda>q. partNumber q = pn) (map ?upd (masterInventory s))
          = map_option ?upd (find (\<lambda>q. partNumber q = pn) (masterInventory s))"
    by (rule find_map_same_key) simp
  with assms(1) key have first: "find (\<lambda>q. partNumber q = pn) (map ?upd (masterInventory s))
         = Some (p\<lparr>quantityOnHand := quantityOnHand p + d\<rparr>)"
    by simp
  have rest: "\<forall>q \<in> set (map ?upd (masterInventory s)).
          partNumber q = pn \<longrightarrow> quantityOnHand q = quantityOnHand p + d"
  proof (intro ballI impI)
    fix q
    assume "q \<in> set (map ?upd (masterInventory s))" and q: "partNumber q = pn"
    then obtain x where x: "q = ?upd x"
      by (auto simp only: set_map image_iff)
    show "quantityOnHand q = quantityOnHand p + d"
    proof (cases "partNumber x = pn")
      case True
      with x show ?thesis by simp
    next
      case False
      with x q show ?thesis by simp
    qed
  qed
  have exact: "\<forall>a b. quantityOnHand p = Finite a \<and> d = Finite b \<and> \<bar>a + b\<bar> \<le> 2 ^ 53 \<longrightarrow>
            quantityOnHand p + d = Finite (a + b)"
    by (auto simp only: plus_Finite_exact)
  show ?thesis
    unfolding inv by (intro conjI first rest exact)
qed

theorem updateInventory_quantity_witness:
  "find (\<lambda>q. partNumber q = ''ENG-001'') (masterInventory shop) = Some eng001
   \<and> find (\<lambda>q. partNumber q = ''ENG-001'')
       (masterInventory
          (fst (updateInventory (modules_of None False) shop (1000, 1000) ''ENG-001''
                  (Finite (- 7)) ''install'' ''RO-10'' shop)))
     = Some (eng001\<lparr>quantityOnHand := Finite (- 2)\<rparr>)"
proof -
  have "quantityOnHand eng001 + Finite (- 7) = Finite (- 2)"
    by (simp add: eng001_def to_double_exact)
  with updateInventory_quantity [OF find_shop_eng001 find_shop_eng001,
      of "modules_of None False" "(1000, 1000)" "Finite (- 7)" "''install''" "''RO-10''"]
  show ?thesis
    by (simp add: find_shop_eng001)
qed

text \<open>
  The claim C1 as stated fails in two ways. A second call from the same render adds the
  delta to the quantity that render shows, not to the previous quantity: two calls with
  \<open>- 1\<close> from the render of \<open>shop\<close> leave \<open>ENG-001\<close> at \<open>4\<close> both times, where the previous
  quantity plus the delta is \<open>3\<close>. And a sum beyond \<open>2 ^ 53\<close> is rounded: adding \<open>1\<close> to the
  quantity \<open>2 ^ 53\<close> of \<open>BULK-003\<close> leaves the part as it was.
\<close>

theorem updateInventory_quantity_not_previous_plus_delta:
  "find (\<lambda>q. partNumber q = ''ENG-001'')
     (masterInventory
        (fst (updateInventory (modules_of None False) shop (1000, 1000) ''ENG-001''
                (Finite (- 1)) ''install'' ''RO-10'' shop)))
     = Some (eng001\<lparr>quantityOnHand := Finite 4\<rparr>)
   \<and> find (\<lambda>q. partNumber q = ''ENG-001'')
       (masterInventory
          (fst (updateInventory (modules_of None False) shop (1001, 1001) ''ENG-001''
                  (Finite (- 1)) ''install'' ''RO-10''
                  (fst (updateInventory (modules_of None False) shop (1000, 1000) ''ENG-001''
                          (Finite (- 1)) ''install'' ''RO-10'' shop)))))
       = Some (eng001\<lparr>quantityOnHand := Finite 4\<rparr>)
   \<and> quantityOnHand bulk = Finite (2 ^ 53)
   \<and> find (\<lambda>q. partNumber q = ''BULK-003'')
       (masterInventory
          (fst (updateInventory (modules_of None False) depot (1000, 1000) ''BULK-003''
                  (Finite 1) ''restock'' ''RO-10'' depot)))
       = Some bulk"
proof -
  have q4: "quantityOnHand eng001 + Finite (- 1) = Finite 4"
    by (simp add: eng001_def to_double_exact)
  have qb: "quantityOnHand bulk + Finite 1 = quantityOnHand bulk"
    by (simp only: bulk_def part.simps plus_one_at_2_53)
  have first: "masterInventory
        (fst (updateInventory (modules_of None False) shop (1000, 1000) ''ENG-001''
                (Finite (- 1)) ''install'' ''RO-10'' shop))
      = [eng001\<lparr>quantityOnHand := Finite 4\<rparr>, prop002]"
    by (simp add: updateInventory_found_inventory [OF find_shop_eng001] q4)
       (simp add: shop_def eng001_def prop002_def to_double_exact)
  have second: "masterInventory
        (fst (updateInventory (modules_of None False) shop (1001, 1001) ''ENG-001''
                (Finite (- 1)) ''install'' ''RO-10''
                (fst (updateInventory (modules_of None False) shop (1000, 1000) ''ENG-001''
                        (Finite (- 1)) ''install'' ''RO-10'' shop))))
      = [eng001\<lparr>quantityOnHand := Finite 4\<rparr>, prop002]"
  proof -
    let ?upd = "\<lambda>part. if partNumber part = ''ENG-001''
                         then part\<lparr>quantityOnHand := quantityOnHand eng001 + Finite (- 1)\<rparr>
                         else part"
    have "masterInventory
        (fst (updateInventory (modules_of None False) shop (1001, 1001) ''ENG-001''
                (Finite (- 1)) ''install'' ''RO-10''
                (fst (updateInventory (modules_of None False) shop (1000, 1000) ''ENG-001''
                        (Finite (- 1)) ''install'' ''RO-10'' shop))))
      = map ?upd (masterInventory
          (fst (updateInventory (modules_of None False) shop (1000, 1000) ''ENG-001''
                  (Finite (- 1)) ''install'' ''RO-10'' shop)))"
      by (rule updateInventory_found_inventory [OF find_shop_eng001])
    also have "\<dots> = map ?upd [eng001\<lparr>quantityOnHand := Finite 4\<rparr>, prop002]"
      by (simp only: first)
    also have "\<dots> = [eng001\<lparr>quantityOnHand := Finite 4\<rparr>, prop002]"
      by (simp add: q4) (simp add: eng001_def prop002_def)
    finally show ?thesis .
  qed
  have third: "masterInventory
        (fst (updateInventory (modules_of None False) depot (1000, 1000) ''BULK-003''
                (Finite 1) ''restock'' ''RO-10'' depot))
      = [gasket, bulk]"
    by (simp add: updateInventory_found_inventory [OF find_depot_bulk] qb)
       (simp add: depot_def gasket_def bulk_def to_double_above_2_53)
  have size: "quantityOnHand bulk = Finite (2 ^ 53)"
    by (simp add: bulk_def)
  show ?thesis
    unfolding first second third using size
    by (simp add: eng001_def gasket_def bulk_def)
qed

text \<open>
  C2 (as amended). When \<^verbatim>\<open>updateInventory\<close> is called for a part number that the
  inventory holds, from a render that shows the part as the inventory holds it, one alert
  is prepended to the log if the new quantity (the sum, as doubles, of the old quantity and
  the delta) is at most the part's reorder point, and the log is unchanged otherwise. The
  quantity compared is the one stored: an alert is raised if and only if the part found
  afterwards has \<open>quantityOnHand \<le> reorderPoint\<close>. When the exact sum lies within \<open>2 ^ 53\<close>
  of zero, an alert is raised if and only if that sum is at most the reorder point.
\<close>

theorem updateInventory_alert_iff:
  assumes "find (\<lambda>q. partNumber q = pn) (masterInventory s) = Some p"
      and "find (\<lambda>q. partNumber q = pn) (masterInventory r) = Some p"
  shows "inventoryAlerts (fst (updateInventory im r now pn d rsn ro s)) =
           (if quantityOnHand p + d \<le> reorderPoint p
            then \<lparr>a_partNumber = pn, message = ''Low stock: '' @ description p, roId = ro,
                  reason = rsn, alert_id = ''alert-'' @ show_int (fst now),
                  timestamp = snd now\<rparr> # inventoryAlerts s
            else inventoryAlerts s)
       \<and> (\<exists>p'. find (\<lambda>q. partNumber q = pn)
                  (masterInventory (fst (updateInventory im r now pn d rsn ro s))) = Some p'
              \<and> quantityOnHand p' = quantityOnHand p + d
              \<and> reorderPoint p' = reorderPoint p
              \<and> ((inventoryAlerts (fst (updateInventory im r now pn d rsn ro s))
                     \<noteq> inventoryAlerts s)
                   = (quantityOnHand p' \<le> reorderPoint p')))
       \<and> (\<forall>a b c. quantityOnHand p = Finite a \<and> d = Finite b \<and> reorderPoint p = Finite c
                   \<and> \<bar>a + b\<bar> \<le> 2 ^ 53 \<longrightarrow>
             ((inventoryAlerts (fst (updateInventory im r now pn d rsn ro s))
                 \<noteq> inventoryAlerts s)
              = (a + b \<le> c)))"
proof -
  let ?s' = "fst (updateInventory im r now pn d rsn ro s)"
  let ?upd = "\<lambda>part. if partNumber part = pn
                       then part\<lparr>quantityOnHand := quantityOnHand p + d\<rparr> else part"
  let ?p' = "p\<lparr>quantityOnHand := quantityOnHand p + d\<rparr>"
  have alerts: "inventoryAlerts ?s' =
           (if quantityOnHand p + d \<le> reorderPoint p
            then \<lparr>a_partNumber = pn, message = ''Low stock: '' @ description p, roId = ro,
                  reason = rsn, alert_id = ''alert-'' @ show_int (fst now),
                  timestamp = snd now\<rparr> # inventoryAlerts s
            else inventoryAlerts s)"
    by (rule updateInventory_found_alerts [OF assms(2)])
  have key: "partNumber p = pn"
    using assms(1) by (auto simp: find_Some_iff)
  have "find (\<lambda>q. partNumber q = pn) (map ?upd (masterInventory s))
          = map_option ?upd (find (\<lambda>q. partNumber q = pn) (masterInventory s))"
    by (rule find_map_same_key) simp
  with assms(1) key
  have "find (\<lambda>q. partNumber q = pn) (map ?upd (masterInventory s)) = Some ?p'"
    by simp
  then have after: "find (\<lambda>q. partNumber q = pn) (masterInventory ?s') = Some ?p'"
    by (simp only: updateInventory_found_inventory [OF assms(2)])
  have changed: "(inventoryAlerts ?s' \<noteq> inventoryAlerts s)
                   = (quantityOnHand p + d \<le> reorderPoint p)"
    by (simp add: alerts)
  have "find (\<lambda>q. partNumber q = pn) (masterInventory ?s') = Some ?p'
        \<and> quantityOnHand ?p' = quantityOnHand p + d
        \<and> reorderPoint ?p' = reorderPoint p
        \<and> ((inventoryAlerts ?s' \<noteq> inventoryAlerts s)
             = (quantityOnHand ?p' \<le> reorderPoint ?p'))"
    using after changed by simp
  then have stored: "\<exists>p'. find (\<lambda>q. partNumber q = pn) (masterInventory ?s') = Some p'
        \<and> quantityOnHand p' = quantityOnHand p + d
        \<and> reorderPoint p' = reorderPoint p
        \<and> ((inventoryAlerts ?s' \<noteq> inventoryAlerts s)
             = (quantityOnHand p' \<le> reorderPoint p'))"
    by (rule exI)
  have exact: "\<forall>a b c. quantityOnHand p = Finite a \<and> d = Finite b \<and> reorderPoint p = Finite c
                   \<and> \<bar>a + b\<bar> \<le> 2 ^ 53 \<longrightarrow>
             ((inventoryAlerts ?s' \<noteq> inventoryAlerts s) = (a + b \<le> c))"
  proof (intro allI impI, elim conjE)
    fix a b c
    assume "quantityOnHand p = Finite a" and "d = Finite b" and "reorderPoint p = Finite c"
      and "\<bar>a + b\<bar> \<le> 2 ^ 53"
    then have "quantityOnHand p + d = Finite (a + b)" and "reorderPoint p = Finite c"
      by (simp_all only: plus_Finite_exact)
    then show "(inventoryAlerts ?s' \<noteq> inventoryAlerts s) = (a + b \<le> c)"
      by (simp add: changed)
  qed
  show ?thesis
    by (intro conjI alerts stored exact)
qed

theorem updateInventory_alert_iff_witness:
  "find (\<lambda>q. partNumber q = ''ENG-001'') (masterInventory shop) = Some eng001
   \<and> inventoryAlerts
       (fst (updateInventory (modules_of None False) shop (1000, 1001) ''ENG-001''
               (Finite (- 1)) ''install'' ''RO-10'' shop))
     = [\<lparr>a_partNumber = ''ENG-001'', message = ''Low stock: Impeller'', roId = ''RO-10'',
         reason = ''install'', alert_id = ''alert-'' @ show_int 1000, timestamp = 1001\<rparr>]
   \<and> inventoryAlerts
       (fst (updateInventory (modules_of None False) shop (1000, 1001) ''PROP-002''
               (Finite (- 2)) ''install'' ''RO-10'' shop)) = []"
proof -
  have q4: "quantityOnHand eng001 + Finite (- 1) = Finite 4"
    and q8: "quantityOnHand prop002 + Finite (- 2) = Finite 8"
    by (simp_all add: eng001_def prop002_def to_double_exact)
  have "inventoryAlerts shop = []"
    by (simp add: shop_def)
  with q4 updateInventory_alert_iff [OF find_shop_eng001 find_shop_eng001,
      of "modules_of None False" "(1000, 1001)" "Finite (- 1)" "''install''" "''RO-10''"]
  have first: "inventoryAlerts
       (fst (updateInventory (modules_of None False) shop (1000, 1001) ''ENG-001''
               (Finite (- 1)) ''install'' ''RO-10'' shop))
     = [\<lparr>a_partNumber = ''ENG-001'', message = ''Low stock: Impeller'', roId = ''RO-10'',
         reason = ''install'', alert_id = ''alert-'' @ show_int 1000, timestamp = 1001\<rparr>]"
    by (simp add: eng001_def)
  from \<open>inventoryAlerts shop = []\<close> q8
    updateInventory_alert_iff [OF find_shop_prop002 find_shop_prop002,
      of "modules_of None False" "(1000, 1001)" "Finite (- 2)" "''install''" "''RO-10''"]
  have second: "inventoryAlerts
       (fst (updateInventory (modules_of None False) shop (1000, 1001) ''PROP-002''
               (Finite (- 2)) ''install'' ''RO-10'' shop)) = []"
    by (simp add: prop002_def)
  show ?thesis
    by (intro conjI find_shop_eng001 first second)
qed

text \<open>
  The claim C2 as stated fails in two ways. After one call with \<open>- 1\<close>, \<open>GSK-004\<close> stands at
  \<open>6\<close> with reorder point \<open>5\<close>; a second call with \<open>- 1\<close> from the same render is due an
  alert (\<open>6 - 1 \<le> 5\<close>) and raises none, because it compares the quantity that render showed
  minus one. And adding \<open>1\<close> to the quantity \<open>2 ^ 53\<close> of \<open>BULK-003\<close>, whose reorder point is
  \<open>2 ^ 53\<close>, raises an alert although \<open>2 ^ 53 + 1\<close> is above the reorder point, because the
  sum is rounded.
\<close>

theorem updateInventory_alert_not_iff:
  "find (\<lambda>q. partNumber q = ''GSK-004'')
     (masterInventory
        (fst (updateInventory (modules_of None False) depot (1000, 1000) ''GSK-004''
                (Finite (- 1)) ''install'' ''RO-10'' depot)))
     = Some (gasket\<lparr>quantityOnHand := Finite 6\<rparr>)
   \<and> reorderPoint gasket = Finite 5
   \<and> (6::int) + - 1 \<le> 5
   \<and> inventoryAlerts
       (fst (updateInventory (modules_of None False) depot (1001, 1001) ''GSK-004''
               (Finite (- 1)) ''install'' ''RO-10''
               (fst (updateInventory (modules_of None False) depot (1000, 1000) ''GSK-004''
                       (Finite (- 1)) ''install'' ''RO-10'' depot)))) = []
   \<and> quantityOnHand bulk = Finite (2 ^ 53)
   \<and> reorderPoint bulk = Finite (2 ^ 53)
   \<and> \<not> (2::int) ^ 53 + 1 \<le> 2 ^ 53
   \<and> length (inventoryAlerts
       (fst (updateInventory (modules_of None False) depot (1000, 1000) ''BULK-003''
               (Finite 1) ''restock'' ''RO-10'' depot))) = 1"
proof -
  have q6: "quantityOnHand gasket + Finite (- 1) = Finite 6"
    by (simp add: gasket_def to_double_exact)
  have qb: "quantityOnHand bulk + Finite 1 = quantityOnHand bulk"
    by (simp only: bulk_def part.simps plus_one_at_2_53)
  have none: "inventoryAlerts depot = []"
    by (simp add: depot_def)
  have first: "masterInventory
        (fst (updateInventory (modules_of None False) depot (1000, 1000) ''GSK-004''
                (Finite (- 1)) ''install'' ''RO-10'' depot))
      = [gasket\<lparr>quantityOnHand := Finite 6\<rparr>, bulk]"
    by (simp add: updateInventory_found_inventory [OF find_depot_gasket] q6)
       (simp add: depot_def gasket_def bulk_def to_double_exact)
  have a1: "inventoryAlerts
        (fst (updateInventory (modules_of None False) depot (1000, 1000) ''GSK-004''
                (Finite (- 1)) ''install'' ''RO-10'' depot)) = []"
    by (simp add: updateInventory_found_alerts [OF find_depot_gasket] q6 none)
       (simp add: gasket_def depot_def)
  have a2: "inventoryAlerts
       (fst (updateInventory (modules_of None False) depot (1001, 1001) ''GSK-004''
               (Finite (- 1)) ''install'' ''RO-10''
               (fst (updateInventory (modules_of None False) depot (1000, 1000) ''GSK-004''
                       (Finite (- 1)) ''install'' ''RO-10'' depot)))) = []"
  proof -
    have "inventoryAlerts
       (fst (updateInventory (modules_of None False) depot (1001, 1001) ''GSK-004''
               (Finite (- 1)) ''install'' ''RO-10''
               (fst (updateInventory (modules_of None False) depot (1000, 1000) ''GSK-004''
                       (Finite (- 1)) ''install'' ''RO-10'' depot))))
      = (if quantityOnHand gasket + Finite (- 1) \<le> reorderPoint gasket
         then \<lparr>a_partNumber = ''GSK-004'', message = ''Low stock: '' @ description gasket,
               roId = ''RO-10'', reason = ''install'',
               alert_id = ''alert-'' @ show_int (fst (1001::int, 1001::int)),
               timestamp = snd (1001::int, 1001::int)\<rparr>
              # inventoryAlerts
                  (fst (updateInventory (modules_of None False) depot (1000, 1000)
                          ''GSK-004'' (Finite (- 1)) ''install'' ''RO-10'' depot))
         else inventoryAlerts
                (fst (updateInventory (modules_of None False) depot (1000, 1000) ''GSK-004''
                        (Finite (- 1)) ''install'' ''RO-10'' depot)))"
      by (rule updateInventory_found_alerts [OF find_depot_gasket])
    also have "\<dots> = []"
      by (simp only: a1 q6) (simp add: gasket_def)
    finally show ?thesis .
  qed
  have a3: "length (inventoryAlerts
       (fst (updateInventory (modules_of None False) depot (1000, 1000) ''BULK-003''
               (Finite 1) ''restock'' ''RO-10'' depot))) = 1"
    by (simp add: updateInventory_found_alerts [OF find_depot_bulk] qb none)
       (simp add: bulk_def depot_def to_double_above_2_53)
  have facts: "reorderPoint gasket = Finite 5" "quantityOnHand bulk = Finite (2 ^ 53)"
    "reorderPoint bulk = Finite (2 ^ 53)"
    by (simp_all add: gasket_def bulk_def)
  show ?thesis
    unfolding first a2 a3 using facts by (simp add: gasket_def)
qed

text \<open>
  C3 (as amended). For a part number that the inventory of the calling render does not
  hold, \<^verbatim>\<open>updateInventory\<close> does nothing at all: the state is returned as it was (so the
  inventory and the alert log are unchanged), no request is issued, and the promise is
  fulfilled. No \<open>PartNotFound\<close> condition is signalled.
\<close>

theorem updateInventory_unknown_part:
  assumes "find (\<lambda>q. partNumber q = pn) (masterInventory r) = None"
  shows "updateInventory im r now pn d rsn ro s = (s, [], Fulfilled)"
  using assms by (simp add: updateInventory_def)

theorem updateInventory_unknown_part_witness:
  "find (\<lambda>q. partNumber q = ''UNKNOWN-PART'') (masterInventory shop) = None
   \<and> updateInventory (modules_of (Some ok_client) True) shop (1000, 1000) ''UNKNOWN-PART''
       (Finite (- 1)) ''install'' ''RO-10'' shop = (shop, [], Fulfilled)"
  using updateInventory_unknown_part [OF find_shop_unknown,
      of "modules_of (Some ok_client) True" "(1000, 1000)" "Finite (- 1)" "''install''"
        "''RO-10''" shop]
  by (simp add: find_shop_unknown)

text \<open>
  The claim C3 as stated fails: a call for an unknown part ends exactly as a successful
  call does. In simulated mode, the call for \<open>UNKNOWN-PART\<close> and a call that adds \<open>0\<close> to
  the stocked part \<open>PROP-002\<close> return the same state, the same (empty) list of requests and
  the same fulfilled promise, so nothing signals that the part was not found.
\<close>

theorem updateInventory_unknown_part_not_signalled:
  "updateInventory (modules_of None False) (shop\<lparr>isDemoMode := True\<rparr>) (1000, 1000)
       ''UNKNOWN-PART'' (Finite (- 1)) ''install'' ''RO-10'' (shop\<lparr>isDemoMode := True\<rparr>)
     = (shop\<lparr>isDemoMode := True\<rparr>, [], Fulfilled)
   \<and> updateInventory (modules_of None False) (shop\<lparr>isDemoMode := True\<rparr>) (1000, 1000)
       ''PROP-002'' (Finite 0) ''install'' ''RO-10'' (shop\<lparr>isDemoMode := True\<rparr>)
     = (shop\<lparr>isDemoMode := True\<rparr>, [], Fulfilled)"
  by (simp add: updateInventory_def shop_def eng001_def prop002_def Let_def to_double_exact)

text \<open>
  C10. \<^verbatim>\<open>updateInventory\<close> changes nothing but \<open>quantityOnHand\<close> of the entries whose
  part number is the given one: the repair orders and the mode, loading and error cells are
  as before, the inventory keeps its length and order, an entry with another part number
  is unchanged, and every entry is its old self up to \<open>quantityOnHand\<close> (its part number,
  description, reorder point and any further field are unchanged).
\<close>

theorem updateInventory_frame:
  "repairOrders (fst (updateInventory im r now pn d rsn ro s)) = repairOrders s
   \<and> isDemoMode (fst (updateInventory im r now pn d rsn ro s)) = isDemoMode s
   \<and> isLoading (fst (updateInventory im r now pn d rsn ro s)) = isLoading s
   \<and> error (fst (updateInventory im r now pn d rsn ro s)) = error s
   \<and> length (masterInventory (fst (updateInventory im r now pn d rsn ro s)))
       = length (masterInventory s)
   \<and> (\<forall>i < length (masterInventory s).
        (partNumber (masterInventory s ! i) \<noteq> pn \<longrightarrow>
           masterInventory (fst (updateInventory im r now pn d rsn ro s)) ! i
             = masterInventory s ! i)
        \<and> masterInventory (fst (updateInventory im r now pn d rsn ro s)) ! i
            = (masterInventory s ! i)
                \<lparr>quantityOnHand :=
                   quantityOnHand
                     (masterInventory (fst (updateInventory im r now pn d rsn ro s)) ! i)\<rparr>)"
proof (cases "find (\<lambda>q. partNumber q = pn) (masterInventory r)")
  case None
  then have "updateInventory im r now pn d rsn ro s = (s, [], Fulfilled)"
    by (rule updateInventory_missing)
  then show ?thesis by simp
next
  case (Some p)
  let ?s' = "fst (updateInventory im r now pn d rsn ro s)"
  let ?upd = "\<lambda>part. if partNumber part = pn
                       then part\<lparr>quantityOnHand := quantityOnHand p + d\<rparr> else part"
  have inv: "masterInventory ?s' = map ?upd (masterInventory s)"
    by (rule updateInventory_found_inventory [OF Some])
  have others: "repairOrders ?s' = repairOrders s" "isDemoMode ?s' = isDemoMode s"
    "isLoading ?s' = isLoading s" "error ?s' = error s"
    by (simp_all add: updateInventory_found [OF Some] addInventoryAlert_frame Let_def)
  have len: "length (masterInventory ?s') = length (masterInventory s)"
    by (simp add: inv)
  have entries: "\<forall>i < length (masterInventory s).
        (partNumber (masterInventory s ! i) \<noteq> pn \<longrightarrow>
           map ?upd (masterInventory s) ! i = masterInventory s ! i)
        \<and> map ?upd (masterInventory s) ! i
            = (masterInventory s ! i)
                \<lparr>quantityOnHand := quantityOnHand (map ?upd (masterInventory s) ! i)\<rparr>"
    by simp
  show ?thesis
    unfolding inv using others len entries by (simp only: inv length_map simp_thms)
qed

theorem updateInventory_frame_witness:
  "masterInventory
     (fst (updateInventory (modules_of None False) shop (1000, 1000) ''ENG-001''
             (Finite (- 1)) ''install'' ''RO-10'' shop)) ! 1 = prop002
   \<and> masterInventory
       (fst (updateInventory (modules_of None False) shop (1000, 1000) ''ENG-001''
               (Finite (- 1)) ''install'' ''RO-10'' shop)) ! 0
     = \<lparr>partNumber = ''ENG-001'', description = ''Impeller'', quantityOnHand = Finite 4,
        reorderPoint = Finite 5\<rparr>
   \<and> repairOrders
       (fst (updateInventory (modules_of None False) shop (1000, 1000) ''ENG-001''
               (Finite (- 1)) ''install'' ''RO-10'' shop)) = [ro1, ro2]"
  using updateInventory_frame [of "modules_of None False" shop "(1000, 1000)" "''ENG-001''"
      "Finite (- 1)" "''install''" "''RO-10''" shop]
  by (simp add: updateInventory_found_inventory [OF find_shop_eng001])
     (simp add: shop_def eng001_def prop002_def to_double_exact)

section \<open>Orders\<close>

text \<open>
  C4. \<^verbatim>\<open>updateRO\<close> puts the given record, whole, in the place of every local record with
  the same id (nothing of the old record survives, so a field the new record lacks is
  lacking afterwards), and leaves every other record, the length and the order of the
  collection as they were. When no record has the given id, the collection is unchanged:
  nothing is inserted. The rest of the state is untouched.
\<close>

theorem updateRO_replaces:
  "length (repairOrders (fst (updateRO im r updatedRO s))) = length (repairOrders s)
   \<and> (\<forall>i < length (repairOrders s).
        (ro_id (repairOrders s ! i) = ro_id updatedRO \<longrightarrow>
           repairOrders (fst (updateRO im r updatedRO s)) ! i = updatedRO)
        \<and> (ro_id (repairOrders s ! i) \<noteq> ro_id updatedRO \<longrightarrow>
             repairOrders (fst (updateRO im r updatedRO s)) ! i = repairOrders s ! i))
   \<and> (ro_id updatedRO \<notin> ro_id ` set (repairOrders s) \<longrightarrow>
        repairOrders (fst (updateRO im r updatedRO s)) = repairOrders s)
   \<and> masterInventory (fst (updateRO im r updatedRO s)) = masterInventory s
   \<and> inventoryAlerts (fst (updateRO im r updatedRO s)) = inventoryAlerts s"
proof -
  let ?f = "\<lambda>ro. if ro_id ro = ro_id updatedRO then updatedRO else ro"
  have orders: "repairOrders (fst (updateRO im r updatedRO s)) = map ?f (repairOrders s)"
    by (simp add: updateRO_def Let_def split: option.splits)
  have rest: "masterInventory (fst (updateRO im r updatedRO s)) = masterInventory s"
    "inventoryAlerts (fst (updateRO im r updatedRO s)) = inventoryAlerts s"
    by (simp_all add: updateRO_def Let_def split: option.splits)
  have absent: "map ?f (repairOrders s) = repairOrders s"
    if "ro_id updatedRO \<notin> ro_id ` set (repairOrders s)"
  proof -
    have "?f x = x" if "x \<in> set (repairOrders s)" for x
    proof -
      from that have "ro_id x \<in> ro_id ` set (repairOrders s)"
        by (rule imageI)
      with \<open>ro_id updatedRO \<notin> ro_id ` set (repairOrders s)\<close>
      have "ro_id x \<noteq> ro_id updatedRO"
        by metis
      then show ?thesis by simp
    qed
    then show ?thesis by (simp add: map_idI)
  qed
  have entries: "\<forall>i < length (repairOrders s).
        (ro_id (repairOrders s ! i) = ro_id updatedRO \<longrightarrow>
           map ?f (repairOrders s) ! i = updatedRO)
        \<and> (ro_id (repairOrders s ! i) \<noteq> ro_id updatedRO \<longrightarrow>
             map ?f (repairOrders s) ! i = repairOrders s ! i)"
    by simp
  have len: "length (map ?f (repairOrders s)) = length (repairOrders s)"
    by simp
  have absent': "ro_id updatedRO \<notin> ro_id ` set (repairOrders s) \<longrightarrow>
        map ?f (repairOrders s) = repairOrders s"
    by (rule impI) (rule absent)
  show ?thesis
    unfolding orders by (intro conjI len entries absent' rest)
qed

theorem updateRO_replaces_witness:
  "repairOrders (fst (updateRO (modules_of None False) shop ro1_authorized shop))
     = [\<lparr>ro_id = ''RO-1'', status = AUTHORIZED, technicianId = None\<rparr>, ro2]
   \<and> repairOrders
       (fst (updateRO (modules_of None False) shop
               \<lparr>ro_id = ''RO-9'', status = NEW, technicianId = None\<rparr> shop))
     = [ro1, ro2]"
proof -
  let ?s1 = "fst (updateRO (modules_of None False) shop ro1_authorized shop)"
  let ?ro9 = "\<lparr>ro_id = ''RO-9'', status = NEW, technicianId = None\<rparr>"
  have orders: "repairOrders shop = [ro1, ro2]"
    by (simp add: shop_def)
  have ids: "ro_id ro1 = ro_id ro1_authorized" "ro_id ro2 \<noteq> ro_id ro1_authorized"
    by (simp_all add: ro1_def ro2_def ro1_authorized_def)
  note thm1 = updateRO_replaces [of "modules_of None False" shop ro1_authorized shop]
  from thm1 have len: "length (repairOrders ?s1) = 2"
    by (simp add: orders)
  from thm1 have e0: "repairOrders ?s1 ! 0 = ro1_authorized"
    using ids by (simp add: orders)
  from thm1 have e1: "repairOrders ?s1 ! 1 = ro2"
    using ids by (simp add: orders)
  have first: "repairOrders ?s1 = [ro1_authorized, ro2]"
    using len e0 e1 by (auto simp: list_eq_iff_nth_eq less_Suc_eq numeral_2_eq_2)
  have "ro_id ?ro9 \<notin> ro_id ` set (repairOrders shop)"
    by (simp add: orders ro1_def ro2_def)
  with updateRO_replaces [of "modules_of None False" shop ?ro9 shop]
  have second: "repairOrders (fst (updateRO (modules_of None False) shop ?ro9 shop))
                  = [ro1, ro2]"
    by (simp add: orders)
  from first second show ?thesis
    by (simp add: ro1_authorized_def)
qed

section \<open>Remote persistence\<close>

lemma addRO_state:
  "fst (addRO im r newRO s) = s\<lparr>repairOrders := repairOrders s @ [newRO]\<rparr>"
  by (simp add: addRO_def Let_def split: option.splits)

lemma updateRO_state:
  "fst (updateRO im r updatedRO s) =
     s\<lparr>repairOrders :=
         map (\<lambda>ro. if ro_id ro = ro_id updatedRO then updatedRO else ro) (repairOrders s)\<rparr>"
  by (simp add: updateRO_def Let_def split: option.splits)

lemma updateInventory_state_any_modules:
  "fst (updateInventory im r now pn d rsn ro s) = fst (updateInventory im' r now pn d rsn ro s)"
  by (simp add: updateInventory_def Let_def split: option.splits)

lemma addRO_remote:
  "snd (addRO im r newRO s) =
     (if isDemoMode r then ([], Fulfilled)
      else case supabase im of
             None \<Rightarrow> ([], Fulfilled)
           | Some c \<Rightarrow>
               ([Insert ''repair_orders'' [toSnake im newRO]],
                await (request c (Insert ''repair_orders'' [toSnake im newRO]))))"
  by (simp add: addRO_def Let_def split: option.splits)

lemma updateRO_remote:
  "snd (updateRO im r updatedRO s) =
     (if isDemoMode r then ([], Fulfilled)
      else case supabase im of
             None \<Rightarrow> ([], Fulfilled)
           | Some c \<Rightarrow>
               ([Update ''repair_orders'' (toSnake im updatedRO) ''id'' (ro_id updatedRO)],
                await (request c
                  (Update ''repair_orders'' (toSnake im updatedRO) ''id'' (ro_id updatedRO)))))"
  by (simp add: updateRO_def Let_def split: option.splits)

lemma updateInventory_remote:
  "snd (updateInventory im r now pn d rsn ro s) =
     (case find (\<lambda>q. partNumber q = pn) (masterInventory r) of
        None \<Rightarrow> ([], Fulfilled)
      | Some p \<Rightarrow>
          if isDemoMode r then ([], Fulfilled)
          else case supabase im of
                 None \<Rightarrow> ([], Fulfilled)
               | Some c \<Rightarrow>
                   ([Update ''master_inventory''
                       (JObj [(''quantity_on_hand'', JNum (quantityOnHand p + d))])
                       ''part_number'' pn],
                    await (request c
                      (Update ''master_inventory''
                         (JObj [(''quantity_on_hand'', JNum (quantityOnHand p + d))])
                         ''part_number'' pn))))"
  by (simp add: updateInventory_def Let_def split: option.splits)

text \<open>
  C5. In simulated mode (\<^verbatim>\<open>isDemoMode\<close> set in the calling render) none of \<^verbatim>\<open>addRO\<close>,
  \<^verbatim>\<open>updateRO\<close> and \<^verbatim>\<open>updateInventory\<close> issues a request. In connected mode
  (\<^verbatim>\<open>isDemoMode\<close> clear and a client present) \<^verbatim>\<open>addRO\<close> issues exactly one insert of the
  translated record into \<open>repair_orders\<close>, \<^verbatim>\<open>updateRO\<close> exactly one update of
  \<open>repair_orders\<close> with the translated record, keyed by \<open>id\<close>, and \<^verbatim>\<open>updateInventory\<close>, for
  a part it finds, exactly one update of \<open>master_inventory\<close> carrying \<open>quantity_on_hand\<close>,
  keyed by \<open>part_number\<close>.
\<close>

theorem mode_isolation:
  "(isDemoMode r \<longrightarrow>
      fst (snd (addRO im r newRO s)) = []
      \<and> fst (snd (updateRO im r updatedRO s)) = []
      \<and> fst (snd (updateInventory im r now pn d rsn ro s)) = [])
   \<and> (\<not> isDemoMode r \<and> supabase im = Some c \<longrightarrow>
        fst (snd (addRO im r newRO s)) = [Insert ''repair_orders'' [toSnake im newRO]]
        \<and> fst (snd (updateRO im r updatedRO s))
            = [Update ''repair_orders'' (toSnake im updatedRO) ''id'' (ro_id updatedRO)]
        \<and> (\<forall>p. find (\<lambda>q. partNumber q = pn) (masterInventory r) = Some p \<longrightarrow>
              fst (snd (updateInventory im r now pn d rsn ro s))
                = [Update ''master_inventory''
                     (JObj [(''quantity_on_hand'', JNum (quantityOnHand p + d))])
                     ''part_number'' pn]))"
  by (simp add: addRO_remote updateRO_remote updateInventory_remote split: option.splits)

theorem mode_isolation_witness:
  "fst (snd (addRO (modules_of (Some ok_client) True) (shop\<lparr>isDemoMode := True\<rparr>) ro2
               (shop\<lparr>isDemoMode := True\<rparr>))) = []
   \<and> fst (snd (updateInventory (modules_of (Some ok_client) True) shop (1000, 1000)
                 ''ENG-001'' (Finite (- 1)) ''install'' ''RO-10'' shop))
       = [Update ''master_inventory'' (JObj [(''quantity_on_hand'', JNum (Finite 4))])
            ''part_number'' ''ENG-001'']
   \<and> fst (snd (updateRO (modules_of (Some ok_client) True) shop ro1_authorized shop))
       = [Update ''repair_orders''
            (JObj [(''id'', JStr ''RO-1''), (''technician_id'', JNull)]) ''id'' ''RO-1'']"
proof -
  have demo: "isDemoMode (shop\<lparr>isDemoMode := True\<rparr>)"
    by simp
  have connected: "\<not> isDemoMode shop \<and>
      supabase (modules_of (Some ok_client) True) = Some ok_client"
    by (simp add: shop_def modules_of_def)
  from mode_isolation [of "shop\<lparr>isDemoMode := True\<rparr>" "modules_of (Some ok_client) True"
      ro2 "shop\<lparr>isDemoMode := True\<rparr>"] demo
  have first: "fst (snd (addRO (modules_of (Some ok_client) True) (shop\<lparr>isDemoMode := True\<rparr>)
                           ro2 (shop\<lparr>isDemoMode := True\<rparr>))) = []"
    by blast
  from mode_isolation [of shop "modules_of (Some ok_client) True" _ shop ro1_authorized
      "(1000, 1000)" "''ENG-001''" "Finite (- 1)" "''install''" "''RO-10''" ok_client]
    connected find_shop_eng001
  have "fst (snd (updateInventory (modules_of (Some ok_client) True) shop (1000, 1000)
                 ''ENG-001'' (Finite (- 1)) ''install'' ''RO-10'' shop))
       = [Update ''master_inventory''
            (JObj [(''quantity_on_hand'', JNum (quantityOnHand eng001 + Finite (- 1)))])
            ''part_number'' ''ENG-001'']
     \<and> fst (snd (updateRO (modules_of (Some ok_client) True) shop ro1_authorized shop))
       = [Update ''repair_orders'' (toSnake (modules_of (Some ok_client) True) ro1_authorized)
            ''id'' (ro_id ro1_authorized)]"
    by blast
  then have second: "fst (snd (updateInventory (modules_of (Some ok_client) True) shop
                 (1000, 1000) ''ENG-001'' (Finite (- 1)) ''install'' ''RO-10'' shop))
       = [Update ''master_inventory'' (JObj [(''quantity_on_hand'', JNum (Finite 4))])
            ''part_number'' ''ENG-001'']
     \<and> fst (snd (updateRO (modules_of (Some ok_client) True) shop ro1_authorized shop))
       = [Update ''repair_orders''
            (JObj [(''id'', JStr ''RO-1''), (''technician_id'', JNull)]) ''id'' ''RO-1'']"
    by (simp add: eng001_def modules_of_def snake_id_def ro1_authorized_def to_double_exact)
  from first second show ?thesis by simp
qed

text \<open>
  C6. The local change of \<^verbatim>\<open>addRO\<close>, \<^verbatim>\<open>updateRO\<close> and \<^verbatim>\<open>updateInventory\<close> is applied
  in every mode and does not depend on the remote store: whatever the client answers, and
  whether or not there is a client, \<^verbatim>\<open>addRO\<close> returns the state with the order appended,
  \<^verbatim>\<open>updateRO\<close> the state with the order replaced, and \<^verbatim>\<open>updateInventory\<close>, for a part it
  finds, the state with the new quantity stored and with the alert prepended when the new
  quantity is at most the reorder point. In connected mode the request is issued once and
  its answer decides only how the promise ends: when the request fails, the promise is
  rejected and the changed state stays (no rollback). No handler issues more than one
  request (no retry).
\<close>

theorem optimistic_update_no_rollback:
  "fst (addRO im r newRO s) = s\<lparr>repairOrders := repairOrders s @ [newRO]\<rparr>
   \<and> fst (updateRO im r updatedRO s)
       = s\<lparr>repairOrders :=
             map (\<lambda>ro. if ro_id ro = ro_id updatedRO then updatedRO else ro) (repairOrders s)\<rparr>
   \<and> (\<forall>p. find (\<lambda>q. partNumber q = pn) (masterInventory r) = Some p \<longrightarrow>
         fst (updateInventory im r now pn d rsn ro s)
           = s\<lparr>masterInventory :=
                 map (\<lambda>part. if partNumber part = pn
                              then part\<lparr>quantityOnHand := quantityOnHand p + d\<rparr> else part)
                   (masterInventory s),
               inventoryAlerts :=
                 (if quantityOnHand p + d \<le> reorderPoint p
                  then \<lparr>a_partNumber = pn, message = ''Low stock: '' @ description p,
                        roId = ro, reason = rsn, alert_id = ''alert-'' @ show_int (fst now),
                        timestamp = snd now\<rparr> # inventoryAlerts s
                  else inventoryAlerts s)\<rparr>)
   \<and> fst (updateInventory im r now pn d rsn ro s)
       = fst (updateInventory (im\<lparr>supabase := None\<rparr>) r now pn d rsn ro s)
   \<and> length (fst (snd (addRO im r newRO s))) \<le> 1
   \<and> length (fst (snd (updateRO im r updatedRO s))) \<le> 1
   \<and> length (fst (snd (updateInventory im r now pn d rsn ro s))) \<le> 1
   \<and> (\<not> isDemoMode r \<and> supabase im = Some c \<longrightarrow>
        snd (addRO im r newRO s)
          = ([Insert ''repair_orders'' [toSnake im newRO]],
             await (request c (Insert ''repair_orders'' [toSnake im newRO])))
        \<and> snd (updateRO im r updatedRO s)
            = ([Update ''repair_orders'' (toSnake im updatedRO) ''id'' (ro_id updatedRO)],
               await (request c
                 (Update ''repair_orders'' (toSnake im updatedRO) ''id'' (ro_id updatedRO))))
        \<and> (\<forall>p. find (\<lambda>q. partNumber q = pn) (masterInventory r) = Some p \<longrightarrow>
              snd (updateInventory im r now pn d rsn ro s)
                  = ([Update ''master_inventory''
                        (JObj [(''quantity_on_hand'', JNum (quantityOnHand p + d))])
                        ''part_number'' pn],
                     await (request c
                       (Update ''master_inventory''
                          (JObj [(''quantity_on_hand'', JNum (quantityOnHand p + d))])
                          ''part_number'' pn)))))
   \<and> (\<forall>e. await (Throws e) = Rejected e)"
proof -
  have lens: "length (fst (snd (addRO im r newRO s))) \<le> 1"
    "length (fst (snd (updateRO im r updatedRO s))) \<le> 1"
    "length (fst (snd (updateInventory im r now pn d rsn ro s))) \<le> 1"
    by (simp_all add: addRO_remote updateRO_remote updateInventory_remote split: option.splits)
  have local: "\<forall>p. find (\<lambda>q. partNumber q = pn) (masterInventory r) = Some p \<longrightarrow>
         fst (updateInventory im r now pn d rsn ro s)
           = s\<lparr>masterInventory :=
                 map (\<lambda>part. if partNumber part = pn
                              then part\<lparr>quantityOnHand := quantityOnHand p + d\<rparr> else part)
                   (masterInventory s),
               inventoryAlerts :=
                 (if quantityOnHand p + d \<le> reorderPoint p
                  then \<lparr>a_partNumber = pn, message = ''Low stock: '' @ description p,
                        roId = ro, reason = rsn, alert_id = ''alert-'' @ show_int (fst now),
                        timestamp = snd now\<rparr> # inventoryAlerts s
                  else inventoryAlerts s)\<rparr>"
    by (intro allI impI) (rule updateInventory_found_state)
  have connected: "\<not> isDemoMode r \<and> supabase im = Some c \<longrightarrow>
        snd (addRO im r newRO s)
          = ([Insert ''repair_orders'' [toSnake im newRO]],
             await (request c (Insert ''repair_orders'' [toSnake im newRO])))
        \<and> snd (updateRO im r updatedRO s)
            = ([Update ''repair_orders'' (toSnake im updatedRO) ''id'' (ro_id updatedRO)],
               await (request c
                 (Update ''repair_orders'' (toSnake im updatedRO) ''id'' (ro_id updatedRO))))
        \<and> (\<forall>p. find (\<lambda>q. partNumber q = pn) (masterInventory r) = Some p \<longrightarrow>
              snd (updateInventory im r now pn d rsn ro s)
                  = ([Update ''master_inventory''
                        (JObj [(''quantity_on_hand'', JNum (quantityOnHand p + d))])
                        ''part_number'' pn],
                     await (request c
                       (Update ''master_inventory''
                          (JObj [(''quantity_on_hand'', JNum (quantityOnHand p + d))])
                          ''part_number'' pn))))"
    by (simp add: addRO_remote updateRO_remote updateInventory_remote)
  have rejected: "\<forall>e. await (Throws e) = Rejected e"
    by (simp add: await_def)
  show ?thesis
    by (intro conjI addRO_state updateRO_state local updateInventory_state_any_modules lens
        connected rejected)
qed

theorem optimistic_update_no_rollback_witness:
  "addRO (modules_of (Some rejecting_client) True) shop ro1_authorized shop
     = (shop\<lparr>repairOrders := [ro1, ro2, ro1_authorized]\<rparr>,
        [Insert ''repair_orders'' [JObj [(''id'', JStr ''RO-1''), (''technician_id'', JNull)]]],
        Rejected \<lparr>err_message = Some ''Failed to fetch''\<rparr>)
   \<and> updateRO (modules_of (Some rejecting_client) True) shop ro1_authorized shop
     = (shop\<lparr>repairOrders := [ro1_authorized, ro2]\<rparr>,
        [Update ''repair_orders'' (JObj [(''id'', JStr ''RO-1''), (''technician_id'', JNull)])
           ''id'' ''RO-1''],
        Rejected \<lparr>err_message = Some ''Failed to fetch''\<rparr>)
   \<and> updateInventory (modules_of (Some rejecting_client) True) shop (1000, 1001) ''ENG-001''
       (Finite (- 1)) ''install'' ''RO-10'' shop
     = (shop\<lparr>masterInventory := [eng001\<lparr>quantityOnHand := Finite 4\<rparr>, prop002],
             inventoryAlerts :=
               [\<lparr>a_partNumber = ''ENG-001'', message = ''Low stock: Impeller'',
                 roId = ''RO-10'', reason = ''install'', alert_id = ''alert-'' @ show_int 1000,
                 timestamp = 1001\<rparr>]\<rparr>,
        [Update ''master_inventory'' (JObj [(''quantity_on_hand'', JNum (Finite 4))])
           ''part_number'' ''ENG-001''],
        Rejected \<lparr>err_message = Some ''Failed to fetch''\<rparr>)"
proof -
  let ?im = "modules_of (Some rejecting_client) True"
  have connected: "\<not> isDemoMode shop \<and> supabase ?im = Some rejecting_client"
    by (simp add: shop_def modules_of_def)
  have q4: "quantityOnHand eng001 + Finite (- 1) = Finite 4"
    by (simp add: eng001_def to_double_exact)
  have le: "Finite 4 \<le> reorderPoint eng001"
    by (simp add: eng001_def)
  have fails: "await (request rejecting_client call)
                 = Rejected \<lparr>err_message = Some ''Failed to fetch''\<rparr>" for call
    by (simp add: rejecting_client_def await_def)
  have snake: "toSnake ?im ro1_authorized
                 = JObj [(''id'', JStr ''RO-1''), (''technician_id'', JNull)]"
    by (simp add: modules_of_def snake_id_def ro1_authorized_def)
  have olds: "repairOrders shop = [ro1, ro2]" "masterInventory shop = [eng001, prop002]"
    "inventoryAlerts shop = []"
    by (simp_all add: shop_def)
  have ids: "ro_id ro1 = ro_id ro1_authorized" "ro_id ro2 \<noteq> ro_id ro1_authorized"
    "ro_id ro1_authorized = ''RO-1''" "ro_id ro2 \<noteq> ''RO-1''"
    "partNumber eng001 = ''ENG-001''"
    "partNumber prop002 \<noteq> ''ENG-001''" "description eng001 = ''Impeller''"
    by (simp_all add: ro1_def ro2_def ro1_authorized_def eng001_def prop002_def)
  note inst = optimistic_update_no_rollback [of ?im shop ro1_authorized shop ro1_authorized
      "''ENG-001''" "(1000, 1001)" "Finite (- 1)" "''install''" "''RO-10''" rejecting_client]
  from inst connected find_shop_eng001
  have parts:
    "fst (addRO ?im shop ro1_authorized shop)
       = shop\<lparr>repairOrders := repairOrders shop @ [ro1_authorized]\<rparr>"
    "fst (updateRO ?im shop ro1_authorized shop)
       = shop\<lparr>repairOrders :=
               map (\<lambda>ro. if ro_id ro = ro_id ro1_authorized then ro1_authorized else ro)
                 (repairOrders shop)\<rparr>"
    "fst (updateInventory ?im shop (1000, 1001) ''ENG-001'' (Finite (- 1)) ''install''
            ''RO-10'' shop)
       = shop\<lparr>masterInventory :=
                 map (\<lambda>part. if partNumber part = ''ENG-001''
                              then part\<lparr>quantityOnHand :=
                                          quantityOnHand eng001 + Finite (- 1)\<rparr>
                              else part)
                   (masterInventory shop),
               inventoryAlerts :=
                 (if quantityOnHand eng001 + Finite (- 1) \<le> reorderPoint eng001
                  then \<lparr>a_partNumber = ''ENG-001'',
                        message = ''Low stock: '' @ description eng001,
                        roId = ''RO-10'', reason = ''install'',
                        alert_id = ''alert-'' @ show_int (fst (1000::int, 1001::int)),
                        timestamp = snd (1000::int, 1001::int)\<rparr> # inventoryAlerts shop
                  else inventoryAlerts shop)\<rparr>"
    "snd (addRO ?im shop ro1_authorized shop)
       = ([Insert ''repair_orders'' [toSnake ?im ro1_authorized]],
          await (request rejecting_client
            (Insert ''repair_orders'' [toSnake ?im ro1_authorized])))"
    "snd (updateRO ?im shop ro1_authorized shop)
       = ([Update ''repair_orders'' (toSnake ?im ro1_authorized) ''id''
             (ro_id ro1_authorized)],
          await (request rejecting_client
            (Update ''repair_orders'' (toSnake ?im ro1_authorized) ''id''
               (ro_id ro1_authorized))))"
    "snd (updateInventory ?im shop (1000, 1001) ''ENG-001'' (Finite (- 1)) ''install''
            ''RO-10'' shop)
       = ([Update ''master_inventory''
             (JObj [(''quantity_on_hand'', JNum (quantityOnHand eng001 + Finite (- 1)))])
             ''part_number'' ''ENG-001''],
          await (request rejecting_client
            (Update ''master_inventory''
               (JObj [(''quantity_on_hand'', JNum (quantityOnHand eng001 + Finite (- 1)))])
               ''part_number'' ''ENG-001'')))"
    by blast+
  have a: "addRO ?im shop ro1_authorized shop
     = (shop\<lparr>repairOrders := [ro1, ro2, ro1_authorized]\<rparr>,
        [Insert ''repair_orders'' [JObj [(''id'', JStr ''RO-1''), (''technician_id'', JNull)]]],
        Rejected \<lparr>err_message = Some ''Failed to fetch''\<rparr>)"
    using parts(1, 4) by (simp add: prod_eq_iff olds fails snake)
  have b: "updateRO ?im shop ro1_authorized shop
     = (shop\<lparr>repairOrders := [ro1_authorized, ro2]\<rparr>,
        [Update ''repair_orders'' (JObj [(''id'', JStr ''RO-1''), (''technician_id'', JNull)])
           ''id'' ''RO-1''],
        Rejected \<lparr>err_message = Some ''Failed to fetch''\<rparr>)"
    using parts(2, 5) by (simp add: prod_eq_iff olds fails snake ids)
  have c: "updateInventory ?im shop (1000, 1001) ''ENG-001'' (Finite (- 1)) ''install''
       ''RO-10'' shop
     = (shop\<lparr>masterInventory := [eng001\<lparr>quantityOnHand := Finite 4\<rparr>, prop002],
             inventoryAlerts :=
               [\<lparr>a_partNumber = ''ENG-001'', message = ''Low stock: Impeller'',
                 roId = ''RO-10'', reason = ''install'', alert_id = ''alert-'' @ show_int 1000,
                 timestamp = 1001\<rparr>]\<rparr>,
        [Update ''master_inventory'' (JObj [(''quantity_on_hand'', JNum (Finite 4))])
           ''part_number'' ''ENG-001''],
        Rejected \<lparr>err_message = Some ''Failed to fetch''\<rparr>)"
    using parts(3, 6) by (simp add: prod_eq_iff olds fails q4 le ids)
  show ?thesis
    by (intro conjI a b c)
qed

section \<open>Decimal rendering is injective\<close>

lemma digit_char_code:
  assumes "n < 10"
  shows "of_char (digit_char n) = (48 + n :: nat)"
proof -
  from assms have "n \<in> {0, 1, 2, 3, 4, 5, 6, 7, 8, 9}"
    by auto
  then show ?thesis
    by (auto simp: digit_char_def)
qed

lemma digit_char_inj:
  assumes "a < 10" and "b < 10" and "digit_char a = digit_char b"
  shows "a = b"
proof -
  from assms(3) have "(of_char (digit_char a) :: nat) = of_char (digit_char b)"
    by (rule arg_cong)
  then have "(48 + a :: nat) = 48 + b"
    by (simp only: digit_char_code [OF assms(1)] digit_char_code [OF assms(2)])
  then show ?thesis by simp
qed

lemma show_nat_small: "n < 10 \<Longrightarrow> show_nat n = [digit_char n]"
  by (simp add: show_nat.simps)

lemma show_nat_large:
  "\<not> n < 10 \<Longrightarrow> show_nat n = show_nat (n div 10) @ [digit_char (n mod 10)]"
  by (subst show_nat.simps) simp

lemma show_nat_not_Nil: "show_nat n \<noteq> []"
  by (cases "n < 10") (simp_all add: show_nat_small show_nat_large)

lemma show_nat_inj: "show_nat n = show_nat m \<Longrightarrow> n = m"
proof (induction n arbitrary: m rule: show_nat.induct)
  case (1 n)
  show ?case
  proof (cases "n < 10")
    case small: True
    show ?thesis
    proof (cases "m < 10")
      case True
      with small "1.prems" show ?thesis
        by (simp add: show_nat_small digit_char_inj)
    next
      case False
      with small "1.prems" show_nat_not_Nil [of "m div 10"] show ?thesis
        by (simp add: show_nat_small show_nat_large Cons_eq_append_conv)
    qed
  next
    case large: False
    show ?thesis
    proof (cases "m < 10")
      case True
      with large "1.prems" show_nat_not_Nil [of "n div 10"] show ?thesis
        by (simp add: show_nat_small show_nat_large append_eq_Cons_conv)
    next
      case False
      with large "1.prems"
      have eq: "show_nat (n div 10) = show_nat (m div 10)"
        and dg: "digit_char (n mod 10) = digit_char (m mod 10)"
        by (simp_all add: show_nat_large)
      from "1.IH" [OF large eq] have "n div 10 = m div 10" .
      moreover from dg have "n mod 10 = m mod 10"
        by (rule digit_char_inj [rotated 2]) simp_all
      ultimately show ?thesis
        by (metis div_mult_mod_eq)
    qed
  qed
qed

lemma show_nat_no_minus: "CHR ''-'' \<notin> set (show_nat n)"
proof (induction n rule: show_nat.induct)
  case (1 n)
  have dg: "digit_char k \<noteq> CHR ''-''" if "k < 10" for k
  proof
    assume "digit_char k = CHR ''-''"
    then have "of_char (digit_char k) = (of_char (CHR ''-'') :: nat)" by simp
    with digit_char_code [OF that] show False by simp
  qed
  show ?case
  proof (cases "n < 10")
    case True
    with dg [of n] show ?thesis by (auto simp: show_nat_small)
  next
    case False
    with "1.IH" dg [of "n mod 10"] show ?thesis by (auto simp: show_nat_large)
  qed
qed

lemma show_int_inj: "show_int i = show_int j \<Longrightarrow> i = j"
proof -
  assume eq: "show_int i = show_int j"
  have hd_nat: "hd (show_nat n) \<noteq> CHR ''-''" for n
    using show_nat_no_minus [of n] show_nat_not_Nil [of n] by (metis hd_in_set)
  show "i = j"
  proof (cases "i < 0")
    case ineg: True
    show ?thesis
    proof (cases "j < 0")
      case True
      with ineg eq have "show_nat (nat (- i)) = show_nat (nat (- j))"
        by (simp add: show_int_def)
      then have "nat (- i) = nat (- j)" by (rule show_nat_inj)
      with ineg True show ?thesis by simp
    next
      case False
      with ineg eq have "CHR ''-'' # show_nat (nat (- i)) = show_nat (nat j)"
        by (simp add: show_int_def)
      then have "hd (show_nat (nat j)) = CHR ''-''" by (metis list.sel(1))
      with hd_nat show ?thesis by simp
    qed
  next
    case ipos: False
    show ?thesis
    proof (cases "j < 0")
      case True
      with ipos eq have "show_nat (nat i) = CHR ''-'' # show_nat (nat (- j))"
        by (simp add: show_int_def)
      then have "hd (show_nat (nat i)) = CHR ''-''" by (metis list.sel(1))
      with hd_nat show ?thesis by simp
    next
      case False
      with ipos eq have "show_nat (nat i) = show_nat (nat j)"
        by (simp add: show_int_def)
      then have "nat i = nat j" by (rule show_nat_inj)
      with ipos False show ?thesis by simp
    qed
  qed
qed

lemma show_int_eq_iff: "(show_int a = show_int b) = (a = b)"
  using show_int_inj [of a b] by auto

section \<open>Alerts\<close>

text \<open>
  C8. An alert's id should differ from the id of every other alert of the log. The id is
  built from the reading of \<^verbatim>\<open>Date.now()\<close> alone, so two alerts raised at the same
  reading share it: here a part is consumed twice at the reading \<open>1000\<close>, and both
  alerts of the log are called \<open>alert-1000\<close>.
\<close>

theorem alert_ids_collide:
  "map alert_id
     (inventoryAlerts
        (fst (updateInventory (modules_of None False) shop (1000, 1000) ''ENG-001''
                (Finite (- 1)) ''install'' ''RO-11''
                (fst (updateInventory (modules_of None False) shop (1000, 1000) ''ENG-001''
                        (Finite (- 1)) ''install'' ''RO-10'' shop)))))
   = [''alert-1000'', ''alert-1000'']"
proof -
  have "show_nat 1000 = ''1000''"
    by (simp add: show_nat.simps digit_char_def)
  then have "show_int 1000 = ''1000''"
    by (simp add: show_int_def)
  then show ?thesis
    by (simp add: updateInventory_found_alerts [OF find_shop_eng001] eng001_def
          to_double_exact)
       (simp add: shop_def)
qed

text \<open>
  C9. Two calls of \<^verbatim>\<open>updateInventory\<close> for the same part, delta, reason and order, each
  of which computes a quantity at or below the reorder point of the part it finds, put two
  entries at the head of the log, the later call's first: the log grows by two, and nothing
  is compared with the entries already there. The two entries have different ids whenever
  the two calls read different values of \<^verbatim>\<open>Date.now()\<close>.
\<close>

theorem updateInventory_twice_two_alerts:
  assumes "find (\<lambda>q. partNumber q = pn) (masterInventory r1) = Some p1"
      and "quantityOnHand p1 + d \<le> reorderPoint p1"
      and "find (\<lambda>q. partNumber q = pn) (masterInventory r2) = Some p2"
      and "quantityOnHand p2 + d \<le> reorderPoint p2"
  shows "inventoryAlerts
           (fst (updateInventory im r2 now2 pn d rsn ro
                   (fst (updateInventory im r1 now1 pn d rsn ro s))))
         = \<lparr>a_partNumber = pn, message = ''Low stock: '' @ description p2, roId = ro,
            reason = rsn, alert_id = ''alert-'' @ show_int (fst now2),
            timestamp = snd now2\<rparr>
           # \<lparr>a_partNumber = pn, message = ''Low stock: '' @ description p1, roId = ro,
              reason = rsn, alert_id = ''alert-'' @ show_int (fst now1),
              timestamp = snd now1\<rparr>
           # inventoryAlerts s
       \<and> length (inventoryAlerts
             (fst (updateInventory im r2 now2 pn d rsn ro
                     (fst (updateInventory im r1 now1 pn d rsn ro s)))))
           = length (inventoryAlerts s) + 2
       \<and> (fst now1 \<noteq> fst now2 \<longrightarrow>
            alert_id (inventoryAlerts
               (fst (updateInventory im r2 now2 pn d rsn ro
                       (fst (updateInventory im r1 now1 pn d rsn ro s)))) ! 0)
            \<noteq> alert_id (inventoryAlerts
               (fst (updateInventory im r2 now2 pn d rsn ro
                       (fst (updateInventory im r1 now1 pn d rsn ro s)))) ! 1))"
  using assms(2, 4)
  by (simp add: updateInventory_found_alerts [OF assms(1)]
      updateInventory_found_alerts [OF assms(3)] show_int_eq_iff)

theorem updateInventory_twice_two_alerts_witness:
  "length (inventoryAlerts
      (fst (updateInventory (modules_of None False)
              (fst (updateInventory (modules_of None False) shop (1000, 1000) ''ENG-001''
                      (Finite (- 1)) ''install'' ''RO-10'' shop))
              (2000, 2000) ''ENG-001'' (Finite (- 1)) ''install'' ''RO-10''
              (fst (updateInventory (modules_of None False) shop (1000, 1000) ''ENG-001''
                      (Finite (- 1)) ''install'' ''RO-10'' shop))))) = 2
   \<and> alert_id (inventoryAlerts
      (fst (updateInventory (modules_of None False)
              (fst (updateInventory (modules_of None False) shop (1000, 1000) ''ENG-001''
                      (Finite (- 1)) ''install'' ''RO-10'' shop))
              (2000, 2000) ''ENG-001'' (Finite (- 1)) ''install'' ''RO-10''
              (fst (updateInventory (modules_of None False) shop (1000, 1000) ''ENG-001''
                      (Finite (- 1)) ''install'' ''RO-10'' shop)))) ! 0)
     \<noteq> alert_id (inventoryAlerts
      (fst (updateInventory (modules_of None False)
              (fst (updateInventory (modules_of None False) shop (1000, 1000) ''ENG-001''
                      (Finite (- 1)) ''install'' ''RO-10'' shop))
              (2000, 2000) ''ENG-001'' (Finite (- 1)) ''install'' ''RO-10''
              (fst (updateInventory (modules_of None False) shop (1000, 1000) ''ENG-001''
                      (Finite (- 1)) ''install'' ''RO-10'' shop)))) ! 1)"
proof -
  let ?s1 = "fst (updateInventory (modules_of None False) shop (1000, 1000) ''ENG-001''
                    (Finite (- 1)) ''install'' ''RO-10'' shop)"
  have first: "quantityOnHand eng001 + Finite (- 1) \<le> reorderPoint eng001"
    by (simp add: eng001_def to_double_exact)
  have "masterInventory ?s1 = [eng001\<lparr>quantityOnHand := Finite 4\<rparr>, prop002]"
    by (simp add: updateInventory_found_inventory [OF find_shop_eng001])
       (simp add: shop_def eng001_def prop002_def to_double_exact)
  then have found: "find (\<lambda>q. partNumber q = ''ENG-001'') (masterInventory ?s1)
                      = Some (eng001\<lparr>quantityOnHand := Finite 4\<rparr>)"
    by (simp add: eng001_def)
  have second: "quantityOnHand (eng001\<lparr>quantityOnHand := Finite 4\<rparr>) + Finite (- 1)
                  \<le> reorderPoint (eng001\<lparr>quantityOnHand := Finite 4\<rparr>)"
    by (simp add: eng001_def to_double_exact)
  have "inventoryAlerts shop = []"
    by (simp add: shop_def)
  with updateInventory_twice_two_alerts [OF find_shop_eng001 first found second,
      of "modules_of None False" "(2000, 2000)" "''install''" "''RO-10''" "(1000, 1000)" shop]
  show ?thesis by (simp add: show_int_eq_iff)
qed

section \<open>Bootstrap errors\<close>

lemma startup_unconfigured:
  assumes "\<not> isSupabaseConfigured im \<or> supabase im = None"
  shows "startup im =
           (initial_state\<lparr>error := Some ''SUPABASE_UNCONFIGURED'', isLoading := False\<rparr>, [])"
  using assms
  by (auto simp: startup_def demoMode_effect_def fetchInitialData_def initial_state_def Let_def)

lemma startup_first_read_failed:
  assumes "isSupabaseConfigured im" and "supabase im = Some c"
      and "thrown (request c (Select ''repair_orders'')) = Some e"
  shows "startup im =
           (initial_state\<lparr>error := Some (catch_message e), isLoading := False\<rparr>,
            [Select ''repair_orders''])"
proof (cases "request c (Select ''repair_orders'')")
  case (Response d err)
  with assms(3) have "err = Some e" by simp
  with Response assms(1, 2) show ?thesis
    by (simp add: startup_def demoMode_effect_def fetchInitialData_def initial_state_def
        catch_finally_def Let_def)
next
  case (Throws e')
  with assms(3) have "e' = e" by simp
  with Throws assms(1, 2) show ?thesis
    by (simp add: startup_def demoMode_effect_def fetchInitialData_def initial_state_def
        catch_finally_def Let_def)
qed

lemma startup_second_read_failed:
  assumes "isSupabaseConfigured im" and "supabase im = Some c"
      and "request c (Select ''repair_orders'') = Response roData None"
      and "thrown (request c (Select ''master_inventory'')) = Some e"
  shows "startup im =
           (initial_state
              \<lparr>repairOrders := toCamel_orders im (if truthy roData then roData else JArr []),
               error := Some (catch_message e), isLoading := False\<rparr>,
            [Select ''repair_orders'', Select ''master_inventory''])"
proof (cases "request c (Select ''master_inventory'')")
  case (Response d err)
  with assms(4) have "err = Some e" by simp
  with Response assms(1, 2, 3) show ?thesis
    by (simp add: startup_def demoMode_effect_def fetchInitialData_def initial_state_def
        catch_finally_def Let_def)
next
  case (Throws e')
  with assms(4) have "e' = e" by simp
  with Throws assms(1, 2, 3) show ?thesis
    by (simp add: startup_def demoMode_effect_def fetchInitialData_def initial_state_def
        catch_finally_def Let_def)
qed

lemma thrown_None:
  "thrown resp = None \<Longrightarrow> \<exists>d. resp = Response d None"
  by (cases resp) simp_all

lemma startup_read_failed:
  assumes "isSupabaseConfigured im" and "supabase im = Some c"
      and "thrown (request c (Select ''repair_orders'')) = Some e
           \<or> thrown (request c (Select ''repair_orders'')) = None
             \<and> thrown (request c (Select ''master_inventory'')) = Some e"
  shows "error (fst (startup im)) = Some (catch_message e)"
    and "\<not> isDemoMode (fst (startup im))"
    and "\<not> isLoading (fst (startup im))"
proof -
  from assms(3) consider
      (first) "thrown (request c (Select ''repair_orders'')) = Some e"
    | (second) roData where "request c (Select ''repair_orders'') = Response roData None"
        and "thrown (request c (Select ''master_inventory'')) = Some e"
    using thrown_None by blast
  then have "error (fst (startup im)) = Some (catch_message e)
      \<and> \<not> isDemoMode (fst (startup im)) \<and> \<not> isLoading (fst (startup im))"
  proof cases
    case first
    show ?thesis
      by (simp add: startup_first_read_failed [OF assms(1, 2) first] initial_state_def)
  next
    case second
    show ?thesis
      by (simp add: startup_second_read_failed [OF assms(1, 2) second] initial_state_def)
  qed
  then show "error (fst (startup im)) = Some (catch_message e)"
    and "\<not> isDemoMode (fst (startup im))"
    and "\<not> isLoading (fst (startup im))"
    by simp_all
qed

text \<open>
  C7 (as amended). If at startup the store is unconfigured (\<^verbatim>\<open>isSupabaseConfigured\<close> is
  false or there is no client), no request is issued, the error cell holds
  \<open>SUPABASE_UNCONFIGURED\<close>, and the screen rendered for it offers a retry, which restarts the
  bootstrap, and a switch to simulated mode, which sets \<^verbatim>\<open>isDemoMode\<close>, clears the error
  and issues no request. If the store is configured and one of the two bulk reads fails,
  the error cell holds the cause's message, or a fixed text when that message is missing or
  empty; \<^verbatim>\<open>isDemoMode\<close> stays clear; and the screen for the unconfigured store is not
  rendered unless the reported message is itself \<open>SUPABASE_UNCONFIGURED\<close>.
\<close>

theorem bootstrap_error_reporting:
  "(\<not> isSupabaseConfigured im \<or> supabase im = None \<longrightarrow>
      startup im
        = (initial_state\<lparr>error := Some ''SUPABASE_UNCONFIGURED'', isLoading := False\<rparr>, [])
      \<and> render (fst (startup im)) = UnconfiguredScreen
      \<and> buttons (render (fst (startup im))) = [RetryHandshake, LaunchSimulationMode]
      \<and> onClick RetryHandshake im (fst (startup im)) = startup im
      \<and> onClick LaunchSimulationMode im (fst (startup im))
          = (initial_state\<lparr>isDemoMode := True, isLoading := False, error := None\<rparr>, []))
   \<and> (isSupabaseConfigured im \<and> supabase im = Some c
        \<and> (thrown (request c (Select ''repair_orders'')) = Some e
           \<or> thrown (request c (Select ''repair_orders'')) = None
             \<and> thrown (request c (Select ''master_inventory'')) = Some e) \<longrightarrow>
        error (fst (startup im)) = Some (catch_message e)
        \<and> \<not> isDemoMode (fst (startup im))
        \<and> \<not> isLoading (fst (startup im))
        \<and> (catch_message e \<noteq> ''SUPABASE_UNCONFIGURED'' \<longrightarrow>
             render (fst (startup im)) = MainScreen)
        \<and> (\<forall>m. err_message e = Some m \<and> m \<noteq> [] \<longrightarrow> catch_message e = m)
        \<and> (err_message e = None \<or> err_message e = Some [] \<longrightarrow>
             catch_message e = ''Uplink to Command Database failed.''))"
proof (intro conjI impI)
  assume u: "\<not> isSupabaseConfigured im \<or> supabase im = None"
  note st = startup_unconfigured [OF u]
  show "startup im
        = (initial_state\<lparr>error := Some ''SUPABASE_UNCONFIGURED'', isLoading := False\<rparr>, [])"
    by (rule st)
  show "render (fst (startup im)) = UnconfiguredScreen"
    by (simp add: st render_def)
  then show "buttons (render (fst (startup im))) = [RetryHandshake, LaunchSimulationMode]"
    by simp
  show "onClick RetryHandshake im (fst (startup im)) = startup im"
    by simp
  show "onClick LaunchSimulationMode im (fst (startup im))
          = (initial_state\<lparr>isDemoMode := True, isLoading := False, error := None\<rparr>, [])"
    by (simp add: st demoMode_effect_def initial_state_def)
next
  assume f: "isSupabaseConfigured im \<and> supabase im = Some c
        \<and> (thrown (request c (Select ''repair_orders'')) = Some e
           \<or> thrown (request c (Select ''repair_orders'')) = None
             \<and> thrown (request c (Select ''master_inventory'')) = Some e)"
  then have cfg: "isSupabaseConfigured im" and cl: "supabase im = Some c"
    and fail: "thrown (request c (Select ''repair_orders'')) = Some e
           \<or> thrown (request c (Select ''repair_orders'')) = None
             \<and> thrown (request c (Select ''master_inventory'')) = Some e"
    by simp_all
  note facts = startup_read_failed [OF cfg cl fail]
  show "error (fst (startup im)) = Some (catch_message e)"
    by (rule facts(1))
  show "\<not> isDemoMode (fst (startup im))"
    by (rule facts(2))
  show "\<not> isLoading (fst (startup im))"
    by (rule facts(3))
  show "render (fst (startup im)) = MainScreen"
    if "catch_message e \<noteq> ''SUPABASE_UNCONFIGURED''"
    using that facts by (simp add: render_def)
  show "\<forall>m. err_message e = Some m \<and> m \<noteq> [] \<longrightarrow> catch_message e = m"
    by (simp add: catch_message_def)
  show "catch_message e = ''Uplink to Command Database failed.''"
    if "err_message e = None \<or> err_message e = Some []"
    using that by (auto simp: catch_message_def)
qed

theorem bootstrap_error_reporting_witness:
  "startup (modules_of None False)
     = (initial_state\<lparr>error := Some ''SUPABASE_UNCONFIGURED'', isLoading := False\<rparr>, [])
   \<and> onClick LaunchSimulationMode (modules_of None False) (fst (startup (modules_of None False)))
       = (initial_state\<lparr>isDemoMode := True, isLoading := False, error := None\<rparr>, [])
   \<and> error (fst (startup (modules_of (Some (failing_client (Some ''JWT expired''))) True)))
       = Some ''JWT expired''
   \<and> render (fst (startup (modules_of (Some (failing_client (Some ''JWT expired''))) True)))
       = MainScreen"
proof -
  have u: "\<not> isSupabaseConfigured (modules_of None False)
             \<or> supabase (modules_of None False) = None"
    by (simp add: modules_of_def)
  let ?im = "modules_of (Some (failing_client (Some ''JWT expired''))) True"
  let ?e = "\<lparr>err_message = Some ''JWT expired''\<rparr>"
  have f: "isSupabaseConfigured ?im
        \<and> supabase ?im = Some (failing_client (Some ''JWT expired''))
        \<and> (thrown (request (failing_client (Some ''JWT expired'')) (Select ''repair_orders''))
             = Some ?e
           \<or> thrown (request (failing_client (Some ''JWT expired'')) (Select ''repair_orders''))
               = None
             \<and> thrown (request (failing_client (Some ''JWT expired''))
                   (Select ''master_inventory'')) = Some ?e)"
    by (simp add: modules_of_def failing_client_def)
  have msg: "catch_message ?e = ''JWT expired''"
    by (simp add: catch_message_def)
  from bootstrap_error_reporting [of "modules_of None False"] u
  have first: "startup (modules_of None False)
     = (initial_state\<lparr>error := Some ''SUPABASE_UNCONFIGURED'', isLoading := False\<rparr>, [])
   \<and> onClick LaunchSimulationMode (modules_of None False) (fst (startup (modules_of None False)))
       = (initial_state\<lparr>isDemoMode := True, isLoading := False, error := None\<rparr>, [])"
    by blast
  from bootstrap_error_reporting [of ?im "failing_client (Some ''JWT expired'')" ?e] f
  have "error (fst (startup ?im)) = Some (catch_message ?e)
        \<and> (catch_message ?e \<noteq> ''SUPABASE_UNCONFIGURED'' \<longrightarrow>
             render (fst (startup ?im)) = MainScreen)"
    by blast
  with msg have second: "error (fst (startup ?im)) = Some ''JWT expired''
        \<and> render (fst (startup ?im)) = MainScreen"
    by simp
  from first second show ?thesis by blast
qed

text \<open>
  The claim C7 as stated fails in two places. A configured store whose first read fails
  with the message \<open>SUPABASE_UNCONFIGURED\<close> leaves the same state, and so the same screen,
  as an unconfigured store: the two conditions are not told apart. And a read that fails
  with an empty message is reported with the fixed text, not with the cause's message.
\<close>

theorem bootstrap_error_not_distinguished:
  "fst (startup (modules_of (Some (failing_client (Some ''SUPABASE_UNCONFIGURED''))) True))
     = fst (startup (modules_of None False))
   \<and> render (fst (startup
         (modules_of (Some (failing_client (Some ''SUPABASE_UNCONFIGURED''))) True)))
       = UnconfiguredScreen
   \<and> error (fst (startup (modules_of (Some (failing_client (Some ''''))) True)))
       = Some ''Uplink to Command Database failed.''"
  by (simp add: startup_def demoMode_effect_def fetchInitialData_def initial_state_def
      modules_of_def failing_client_def catch_finally_def catch_message_def render_def Let_def)

end
